theory Spec2Isabelle
  imports Main "HOL-Library.AList" "HOL-Library.Word"
begin

section \<open>Python values\<close>

text \<open>
  The library passes untyped Python values around (\<^verbatim>\<open>Any\<close>): decoded JSON, response
  content, header values. They are the values of \<open>pyval\<close>. A \<^verbatim>\<open>str\<close> is a list of
  characters with code points below 256, \<^verbatim>\<open>bytes\<close>, \<^verbatim>\<open>bytearray\<close> and
  \<^verbatim>\<open>memoryview\<close> are lists of 8-bit words, a \<^verbatim>\<open>dict\<close> with \<^verbatim>\<open>str\<close> keys is an
  association list in insertion order. Floats are left out.
\<close>

type_synonym byte = "8 word"

datatype pyval =
    PNone
  | PBool bool
  | PInt int
  | PStr string
  | PBytes "byte list"
  | PList "pyval list"
  | PDict "(string \<times> pyval) list"

type_synonym dict = "(string \<times> pyval) list"

text \<open>Truth value of a Python object, as \<^verbatim>\<open>if x:\<close> and \<^verbatim>\<open>x or y\<close> test it.\<close>

fun truthy :: "pyval \<Rightarrow> bool" where
  "truthy PNone = False"
| "truthy (PBool b) = b"
| "truthy (PInt i) = (i \<noteq> 0)"
| "truthy (PStr s) = (s \<noteq> [])"
| "truthy (PBytes b) = (b \<noteq> [])"
| "truthy (PList l) = (l \<noteq> [])"
| "truthy (PDict d) = (d \<noteq> [])"

section \<open>Exceptions\<close>

text \<open>
  \<open>HTTPException status detail headers error_detail\<close> and \<open>ValidationError errors\<close> are
  the two classes of \<^verbatim>\<open>exceptions.py\<close>. The other constructors are the built-in
  exceptions the code can raise or that a route function can raise; \<open>BaseFault\<close> stands
  for the exceptions that derive from \<^verbatim>\<open>BaseException\<close> only (\<^verbatim>\<open>KeyboardInterrupt\<close>,
  \<^verbatim>\<open>SystemExit\<close>, \<^verbatim>\<open>CancelledError\<close>), which \<^verbatim>\<open>except Exception\<close> does not catch.
\<close>

datatype exn =
    HTTPException int pyval pyval pyval
  | ValidationError pyval
  | KeyError
  | IndexError
  | AttributeError
  | TypeError
  | JSONDecodeError
  | BinasciiError
  | TimeoutError
  | ValueError string
  | BaseFault string

fun is_Exception :: "exn \<Rightarrow> bool" where
  "is_Exception (BaseFault _) = False"
| "is_Exception _ = True"

section \<open>The log event of a request\<close>

text \<open>
  \<^verbatim>\<open>LogEvent.from_context()\<close> is the event that \<^verbatim>\<open>create_event\<close> opened for the request
  being handled; the response setters write its \<^verbatim>\<open>status_code\<close>. The state is passed
  explicitly.
\<close>

record log_event =
  ev_method :: pyval
  ev_path :: pyval
  ev_id :: pyval
  ev_user_agent :: pyval
  ev_status_code :: "int option"
  ev_error_detail :: pyval

definition create_event :: "pyval \<Rightarrow> pyval \<Rightarrow> pyval \<Rightarrow> pyval \<Rightarrow> log_event" where
  "create_event m p i ua =
     \<lparr>ev_method = m, ev_path = p, ev_id = i, ev_user_agent = ua,
      ev_status_code = None, ev_error_detail = PNone\<rparr>"

section \<open>Responses (\<^verbatim>\<open>_responses.py\<close>)\<close>

text \<open>
  \<open>resp_json\<close> tells a \<^verbatim>\<open>JSONResponse\<close> from a plain \<^verbatim>\<open>Response\<close>; the other fields are
  the slots \<^verbatim>\<open>_content\<close>, \<^verbatim>\<open>_status_code\<close>, \<^verbatim>\<open>_headers\<close> and \<^verbatim>\<open>_media_type\<close>.
\<close>

record response =
  resp_json :: bool
  resp_content :: pyval
  resp_status_code :: int
  resp_headers :: dict
  resp_media_type :: "string option"

text \<open>The setter of \<^verbatim>\<open>Response.status_code\<close>.\<close>

definition set_status_code :: "int \<Rightarrow> response \<times> log_event \<Rightarrow> response \<times> log_event" where
  "set_status_code v = (\<lambda>(r, ev).
     (let v' = (if resp_content r = PNone \<and> v = 200 then 204 else v)
      in (r\<lparr>resp_status_code := v'\<rparr>, ev\<lparr>ev_status_code := Some v'\<rparr>)))"

text \<open>The setter of \<^verbatim>\<open>Response.content\<close>.\<close>

definition set_content :: "pyval \<Rightarrow> response \<times> log_event \<Rightarrow> response \<times> log_event" where
  "set_content v = (\<lambda>(r, ev).
     (let r' = r\<lparr>resp_content := v\<rparr>
      in if v \<noteq> PNone \<and> resp_status_code r' = 204
         then (r'\<lparr>resp_status_code := 200\<rparr>, ev\<lparr>ev_status_code := Some 200\<rparr>)
         else (r', ev)))"

text \<open>
  \<^verbatim>\<open>Response.__init__\<close>; \<open>js\<close> is true for the subclass \<^verbatim>\<open>JSONResponse\<close>, whose
  \<^verbatim>\<open>_MEDIA_TYPE\<close> is \<^verbatim>\<open>application/json\<close>. The arguments left out by a caller take the
  defaults of the signature: content \<open>PNone\<close>, status 200, headers \<open>None\<close>, media type
  \<open>None\<close>.
\<close>

definition MEDIA_TYPE :: "bool \<Rightarrow> string option" where
  "MEDIA_TYPE js = (if js then Some ''application/json'' else None)"

definition Response_init ::
  "bool \<Rightarrow> pyval \<Rightarrow> int \<Rightarrow> dict option \<Rightarrow> string option \<Rightarrow> log_event \<Rightarrow> response \<times> log_event"
where
  "Response_init js cont status hdrs mt ev =
     (let r0 = \<lparr>resp_json = js, resp_content = cont, resp_status_code = 0, resp_headers = [],
                resp_media_type =
                  (case mt of None \<Rightarrow> MEDIA_TYPE js
                   | Some m \<Rightarrow> if m \<noteq> [] then Some m else MEDIA_TYPE js)\<rparr>;
          (r1, ev1) = set_status_code status (r0, ev);
          h = (case hdrs of None \<Rightarrow> [] | Some d \<Rightarrow> d)
      in (r1\<lparr>resp_headers := AList.update ''x-request-id'' (ev_id ev1) h\<rparr>, ev1))"

abbreviation JSONResponse :: "pyval \<Rightarrow> int \<Rightarrow> log_event \<Rightarrow> response \<times> log_event" where
  "JSONResponse cont status ev \<equiv> Response_init True cont status None None ev"

section \<open>Operations on Python values\<close>

text \<open>Sequencing of computations that may raise.\<close>

fun and_then :: "exn + 'a \<Rightarrow> ('a \<Rightarrow> exn + 'b) \<Rightarrow> exn + 'b" where
  "and_then (Inl e) f = Inl e"
| "and_then (Inr x) f = f x"

text \<open>\<^verbatim>\<open>x[k]\<close> for a \<^verbatim>\<open>str\<close> key: only a dict can answer, with the value or a KeyError.\<close>

fun getitem :: "pyval \<Rightarrow> string \<Rightarrow> exn + pyval" where
  "getitem (PDict d) k = (case map_of d k of None \<Rightarrow> Inl KeyError | Some v \<Rightarrow> Inr v)"
| "getitem _ k = Inl TypeError"

text \<open>\<^verbatim>\<open>x[0]\<close>.\<close>

fun getitem0 :: "pyval \<Rightarrow> exn + pyval" where
  "getitem0 (PList []) = Inl IndexError"
| "getitem0 (PList (v # vs)) = Inr v"
| "getitem0 (PDict d) = Inl KeyError"
| "getitem0 (PStr []) = Inl IndexError"
| "getitem0 (PStr (c # cs)) = Inr (PStr [c])"
| "getitem0 (PBytes []) = Inl IndexError"
| "getitem0 (PBytes (b # bs)) = Inr (PInt (uint b))"
| "getitem0 _ = Inl TypeError"

text \<open>\<^verbatim>\<open>d.get(k, default)\<close> on a dict.\<close>

definition dict_get :: "dict \<Rightarrow> string \<Rightarrow> pyval \<Rightarrow> pyval" where
  "dict_get d k dflt = (case map_of d k of None \<Rightarrow> dflt | Some v \<Rightarrow> v)"

text \<open>\<^verbatim>\<open>x[k] = v\<close> for a \<^verbatim>\<open>str\<close> key.\<close>

fun setitem :: "pyval \<Rightarrow> string \<Rightarrow> pyval \<Rightarrow> exn + pyval" where
  "setitem (PDict d) k v = Inr (PDict (AList.update k v d))"
| "setitem _ k v = Inl TypeError"

text \<open>\<^verbatim>\<open>x.pop(k)\<close> for a \<^verbatim>\<open>str\<close> key: the value and the object without the key.\<close>

fun pop :: "pyval \<Rightarrow> string \<Rightarrow> exn + (pyval \<times> pyval)" where
  "pop (PDict d) k =
     (case map_of d k of None \<Rightarrow> Inl KeyError | Some v \<Rightarrow> Inr (v, PDict (AList.delete k d)))"
| "pop (PList l) k = Inl TypeError"
| "pop _ k = Inl AttributeError"

text \<open>\<^verbatim>\<open>d.setdefault(k, v)\<close> on a dict.\<close>

definition setdefault :: "dict \<Rightarrow> string \<Rightarrow> pyval \<Rightarrow> dict" where
  "setdefault d k v = (case map_of d k of None \<Rightarrow> AList.update k v d | Some _ \<Rightarrow> d)"

text \<open>The elements a \<^verbatim>\<open>for\<close> loop over the value visits.\<close>

fun py_iter :: "pyval \<Rightarrow> exn + pyval list" where
  "py_iter (PList l) = Inr l"
| "py_iter (PDict d) = Inr (map (\<lambda>kv. PStr (fst kv)) d)"
| "py_iter (PStr s) = Inr (map (\<lambda>c. PStr [c]) s)"
| "py_iter (PBytes b) = Inr (map (\<lambda>w. PInt (uint w)) b)"
| "py_iter _ = Inl TypeError"

text \<open>\<^verbatim>\<open>str.lower()\<close> on the code points below 256.\<close>

definition lower_char :: "char \<Rightarrow> char" where
  "lower_char c =
     (let n = (of_char c :: nat)
      in if (65 \<le> n \<and> n \<le> 90) \<or> (192 \<le> n \<and> n \<le> 222 \<and> n \<noteq> 215)
         then char_of (n + 32) else c)"

definition lower :: "string \<Rightarrow> string" where
  "lower s = map lower_char s"

text \<open>\<^verbatim>\<open>str.encode()\<close>: UTF-8, one byte below 128 and two bytes from 128 to 255.\<close>

definition utf8_char :: "char \<Rightarrow> byte list" where
  "utf8_char c =
     (let n = (of_char c :: nat)
      in if n < 128 then [of_nat n] else [of_nat (192 + n div 64), of_nat (128 + n mod 64)])"

definition encode :: "string \<Rightarrow> byte list" where
  "encode s = concat (map utf8_char s)"

text \<open>\<^verbatim>\<open>str(n)\<close> for an \<^verbatim>\<open>int\<close>.\<close>

fun digits :: "nat \<Rightarrow> string" where
  "digits n = (if n < 10 then [char_of (48 + n)] else digits (n div 10) @ [char_of (48 + n mod 10)])"

declare digits.simps [simp del]

definition str_int :: "int \<Rightarrow> string" where
  "str_int i = (if i < 0 then CHR ''-'' # digits (nat (- i)) else digits (nat i))"

section \<open>Base64 (\<^verbatim>\<open>base64.b64encode\<close>, \<^verbatim>\<open>base64.b64decode\<close>)\<close>

text \<open>
  The two functions of the Python standard library that the backend calls. The encoder
  is the one of RFC 4648 with padding; its output is ASCII, and \<open>b64encode\<close> gives it as the
  text that \<^verbatim>\<open>b64encode(body).decode()\<close> is. The decoder is the state machine of
  \<^verbatim>\<open>binascii.a2b_base64\<close> outside strict mode: bytes outside the alphabet are skipped, a
  pad that completes a group ends the input, and an incomplete group is an error. The
  shifts and ors of the C code combine disjoint bit ranges and are written as sums, and
  the two tables of the alphabet (\<^verbatim>\<open>A\<close> to \<^verbatim>\<open>Z\<close>, \<^verbatim>\<open>a\<close> to \<^verbatim>\<open>z\<close>, \<^verbatim>\<open>0\<close> to \<^verbatim>\<open>9\<close>, \<^verbatim>\<open>+\<close>,
  \<^verbatim>\<open>/\<close>) are written by their ranges of character codes.
\<close>

definition b64_char :: "nat \<Rightarrow> char" where
  "b64_char n =
     (let v = n mod 64
      in if v < 26 then char_of (65 + v)
         else if v < 52 then char_of (97 + (v - 26))
         else if v < 62 then char_of (48 + (v - 52))
         else if v = 62 then CHR ''+'' else CHR ''/'')"

fun b64encode :: "byte list \<Rightarrow> string" where
  "b64encode (a # b # c # rest) =
     b64_char (unat a div 4) # b64_char (unat a mod 4 * 16 + unat b div 16) #
     b64_char (unat b mod 16 * 4 + unat c div 64) # b64_char (unat c mod 64) # b64encode rest"
| "b64encode [a, b] =
     [b64_char (unat a div 4), b64_char (unat a mod 4 * 16 + unat b div 16),
      b64_char (unat b mod 16 * 4), CHR ''='']"
| "b64encode [a] = [b64_char (unat a div 4), b64_char (unat a mod 4 * 16), CHR ''='', CHR ''='']"
| "b64encode [] = []"

definition b64_value :: "byte \<Rightarrow> nat option" where
  "b64_value b =
     (let c = unat b
      in if 65 \<le> c \<and> c \<le> 90 then Some (c - 65)
         else if 97 \<le> c \<and> c \<le> 122 then Some (c - 97 + 26)
         else if 48 \<le> c \<and> c \<le> 57 then Some (c - 48 + 52)
         else if c = 43 then Some 62
         else if c = 47 then Some 63
         else None)"

fun a2b_base64 :: "byte list \<Rightarrow> nat \<Rightarrow> nat \<Rightarrow> nat \<Rightarrow> byte list \<Rightarrow> exn + byte list" where
  "a2b_base64 [] quad_pos leftchar pads out =
     (if quad_pos \<noteq> 0 then Inl BinasciiError else Inr out)"
| "a2b_base64 (ch # rest) quad_pos leftchar pads out =
     (if ch = 61 then
        (if 2 \<le> quad_pos then
           (if 4 \<le> quad_pos + (pads + 1) then Inr out
            else a2b_base64 rest quad_pos leftchar (pads + 1) out)
         else a2b_base64 rest quad_pos leftchar pads out)
      else
        (case b64_value ch of
           None \<Rightarrow> a2b_base64 rest quad_pos leftchar pads out
         | Some v \<Rightarrow>
             (if quad_pos = 0 then a2b_base64 rest 1 v 0 out
              else if quad_pos = 1 then
                a2b_base64 rest 2 (v mod 16) 0 (out @ [of_nat (leftchar * 4 + v div 16)])
              else if quad_pos = 2 then
                a2b_base64 rest 3 (v mod 4) 0 (out @ [of_nat (leftchar * 16 + v div 4)])
              else a2b_base64 rest 0 0 0 (out @ [of_nat (leftchar * 64 + v)]))))"

declare a2b_base64.simps [simp del]

definition b64decode :: "byte list \<Rightarrow> exn + byte list" where
  "b64decode s = a2b_base64 s 0 0 0 []"

section \<open>Collaborators outside the repository's sources\<close>

text \<open>
  The JSON codec (\<^verbatim>\<open>orjson\<close> or \<^verbatim>\<open>json\<close>), the table of status messages
  (\<^verbatim>\<open>aio_lambda_api.status\<close>), the classifier of the logger
  (\<^verbatim>\<open>event.status_code_from_exception\<close>, of \<^verbatim>\<open>jhalog\<close>) and \<^verbatim>\<open>str\<close> on arbitrary
  objects are parameters of the model. A decoder that rejects its input returns
  \<open>Inl JSONDecodeError\<close>.
\<close>

record lib =
  loads :: "pyval \<Rightarrow> exn + pyval"
  dumps :: "pyval \<Rightarrow> exn + string"
  get_status_message :: "int \<Rightarrow> string"
  status_code_from_exception :: "exn \<Rightarrow> log_event \<Rightarrow> (int \<times> pyval) \<times> log_event"
  py_str :: "pyval \<Rightarrow> string"

section \<open>Requests (\<^verbatim>\<open>_requests.py\<close> and the subclass of \<^verbatim>\<open>_backends/aws_lambda.py\<close>)\<close>

text \<open>
  \<open>req_body\<close> and \<open>req_json\<close> are the slots \<^verbatim>\<open>_body\<close> and \<^verbatim>\<open>_json\<close>, \<open>None\<close> while the
  attribute is not set. \<open>req_aws\<close> is true for an instance of the backend's subclass,
  which adds \<^verbatim>\<open>event\<close> and \<^verbatim>\<open>_context\<close> and overrides \<^verbatim>\<open>body\<close>.
\<close>

record request =
  req_aws :: bool
  req_path :: pyval
  req_method :: pyval
  req_headers :: dict
  req_body :: "pyval option"
  req_json :: "pyval option"
  req_raises_exceptions :: pyval
  req_event :: dict
  req_context :: pyval

text \<open>The dict comprehension \<^verbatim>\<open>{key.lower(): value for key, value in headers.items()}\<close>.\<close>

definition lower_keys :: "dict \<Rightarrow> dict" where
  "lower_keys d = fold (\<lambda>kv acc. AList.update (lower (fst kv)) (snd kv) acc) d []"

text \<open>\<^verbatim>\<open>Request.__init__\<close> of the base class.\<close>

definition Request_init :: "pyval \<Rightarrow> pyval \<Rightarrow> dict option \<Rightarrow> pyval \<Rightarrow> pyval \<Rightarrow> request" where
  "Request_init path method hdrs body raises =
     \<lparr>req_aws = False, req_path = path, req_method = method,
      req_headers = (case hdrs of None \<Rightarrow> [] | Some d \<Rightarrow> if d \<noteq> [] then lower_keys d else []),
      req_body = (if body \<noteq> PNone then Some body else None),
      req_json = None, req_raises_exceptions = raises, req_event = [], req_context = PNone\<rparr>"

text \<open>
  \<^verbatim>\<open>Request.__init__\<close> of the backend's subclass. \<^verbatim>\<open>headers.setdefault\<close> writes into the
  dict that the event holds, so the stored event has the updated headers.
\<close>

definition aws_Request_init :: "dict \<Rightarrow> pyval \<Rightarrow> pyval \<Rightarrow> exn + request" where
  "aws_Request_init event context raises =
     and_then (getitem (PDict event) ''requestContext'') (\<lambda>request_context.
     and_then
       (case getitem request_context ''http'' of
          Inl KeyError \<Rightarrow>
            and_then (getitem request_context ''httpMethod'') (\<lambda>m.
            and_then (getitem request_context ''path'') (\<lambda>p. Inr (m, p)))
        | Inl e \<Rightarrow> Inl e
        | Inr http \<Rightarrow>
            and_then (getitem http ''method'') (\<lambda>m.
            and_then (getitem http ''path'') (\<lambda>p. Inr (m, p))))
       (\<lambda>(method, path).
          (let h = dict_get event ''headers'' PNone
           in case (if truthy h then h else PDict []) of
                PDict hdrs \<Rightarrow>
                  and_then
                    (case getitem request_context ''requestId'' of
                       Inl KeyError \<Rightarrow> Inr hdrs
                     | Inl e \<Rightarrow> Inl e
                     | Inr rid \<Rightarrow> Inr (setdefault hdrs ''x-request-id'' rid))
                    (\<lambda>hdrs'.
                       Inr ((Request_init path method (Some hdrs') PNone raises)
                              \<lparr>req_aws := True,
                               req_event :=
                                 (if truthy h then AList.update ''headers'' (PDict hdrs') event
                                  else event),
                               req_context := context\<rparr>))
              | _ \<Rightarrow> Inl AttributeError)))"

text \<open>\<^verbatim>\<open>Request.body\<close> of the base class, and of the backend's subclass.\<close>

definition base_Request_body :: "request \<Rightarrow> (exn + pyval) \<times> request" where
  "base_Request_body r = (Inr (case req_body r of Some b \<Rightarrow> b | None \<Rightarrow> PNone), r)"

definition aws_Request_body :: "request \<Rightarrow> (exn + pyval) \<times> request" where
  "aws_Request_body r =
     (case req_body r of
        Some b \<Rightarrow> (Inr b, r)
      | None \<Rightarrow>
          (case (let body = dict_get (req_event r) ''body'' PNone
                 in if body \<noteq> PNone then
                      and_then (case body of PStr s \<Rightarrow> Inr (encode s) | _ \<Rightarrow> Inl AttributeError)
                        (\<lambda>bs. if truthy (dict_get (req_event r) ''isBase64Encoded'' (PBool False))
                              then and_then (b64decode bs) (\<lambda>d. Inr (PBytes d))
                              else Inr (PBytes bs))
                    else Inr PNone) of
             Inl e \<Rightarrow> (Inl e, r)
           | Inr body \<Rightarrow> (Inr body, r\<lparr>req_body := Some body\<rparr>)))"

definition Request_body :: "request \<Rightarrow> (exn + pyval) \<times> request" where
  "Request_body r = (if req_aws r then aws_Request_body r else base_Request_body r)"

text \<open>\<^verbatim>\<open>Request.json\<close>.\<close>

definition Request_json :: "lib \<Rightarrow> request \<Rightarrow> (exn + pyval) \<times> request" where
  "Request_json ext r =
     (case req_json r of
        Some j \<Rightarrow> (Inr j, r)
      | None \<Rightarrow>
          (case Request_body r of
             (Inl e, r') \<Rightarrow> (Inl e, r')
           | (Inr body, r') \<Rightarrow>
               (if body \<noteq> PNone then
                  (case loads ext body of
                     Inl JSONDecodeError \<Rightarrow> (Inr body, r'\<lparr>req_json := Some body\<rparr>)
                   | Inl e \<Rightarrow> (Inl e, r')
                   | Inr v \<Rightarrow> (Inr v, r'\<lparr>req_json := Some v\<rparr>))
                else (Inr body, r'\<lparr>req_json := Some body\<rparr>))))"

section \<open>The AWS Lambda backend (\<^verbatim>\<open>_backends/aws_lambda.py\<close>)\<close>

text \<open>\<^verbatim>\<open>event_source.split(':', 1)[1]\<close>.\<close>

fun source_suffix :: "pyval \<Rightarrow> exn + string" where
  "source_suffix (PStr s) =
     (case dropWhile (\<lambda>c. c \<noteq> CHR '':'') s of [] \<Rightarrow> Inl IndexError | c # rest \<Rightarrow> Inr rest)"
| "source_suffix (PBytes b) = Inl TypeError"
| "source_suffix _ = Inl AttributeError"

text \<open>
  The parsers are generators: the value is the list of the outcomes of the loop's
  iterations, and the consumer stops at the first that raised. The outer error is the
  one of the loop header.
\<close>

definition parse_record_mq :: "lib \<Rightarrow> pyval \<Rightarrow> exn + pyval" where
  "parse_record_mq ext record =
     and_then (pop record ''data'') (\<lambda>(datum, record').
     and_then (loads ext datum) (\<lambda>re.
     and_then (setitem re ''eventSource'' (PStr ''aws:mq'')) (\<lambda>re.
     setitem re ''eventData'' record')))"

definition parse_event_mq :: "lib \<Rightarrow> dict \<Rightarrow> exn + (exn + pyval) list" where
  "parse_event_mq ext event =
     and_then (and_then (getitem (PDict event) ''messages'') py_iter)
       (\<lambda>records. Inr (map (parse_record_mq ext) records))"

definition parse_record_sqs :: "lib \<Rightarrow> pyval \<Rightarrow> exn + pyval" where
  "parse_record_sqs ext record =
     and_then (pop record ''body'') (\<lambda>(body, record').
     and_then (loads ext body) (\<lambda>re.
     and_then (setitem re ''eventSource'' (PStr ''aws:sqs'')) (\<lambda>re.
     and_then (setitem re ''eventData'' record') (\<lambda>re.
     setitem re ''eventRaisesExceptions'' (PBool False)))))"

definition parse_event_sqs :: "lib \<Rightarrow> dict \<Rightarrow> exn + (exn + pyval) list" where
  "parse_event_sqs ext event =
     and_then (and_then (getitem (PDict event) ''Records'') py_iter)
       (\<lambda>records. Inr (map (parse_record_sqs ext) records))"

definition parse_record_sns :: "lib \<Rightarrow> pyval \<Rightarrow> exn + pyval" where
  "parse_record_sns ext record =
     and_then (getitem record ''Sns'') (\<lambda>sns.
     and_then (pop sns ''Message'') (\<lambda>(message, sns').
     and_then (setitem record ''Sns'' sns') (\<lambda>record'.
     and_then (loads ext message) (\<lambda>re.
     and_then (setitem re ''eventSource'' (PStr ''aws:sns'')) (\<lambda>re.
     setitem re ''eventData'' record')))))"

definition parse_event_sns :: "lib \<Rightarrow> dict \<Rightarrow> exn + (exn + pyval) list" where
  "parse_event_sns ext event =
     and_then (and_then (getitem (PDict event) ''Records'') py_iter)
       (\<lambda>records. Inr (map (parse_record_sns ext) records))"

text \<open>\<^verbatim>\<open>getattr(self, f"_parse_event_{suffix}")\<close>: the class has these three.\<close>

definition getattr_parse_event ::
  "string \<Rightarrow> exn + (lib \<Rightarrow> dict \<Rightarrow> exn + (exn + pyval) list)" where
  "getattr_parse_event suffix =
     (if suffix = ''mq'' then Inr parse_event_mq
      else if suffix = ''sqs'' then Inr parse_event_sqs
      else if suffix = ''sns'' then Inr parse_event_sns
      else Inl AttributeError)"

text \<open>The list comprehension of \<^verbatim>\<open>parse_request\<close> over a generator.\<close>

definition record_request :: "pyval \<Rightarrow> pyval \<Rightarrow> exn + request" where
  "record_request context record_event =
     (case record_event of
        PDict d \<Rightarrow> aws_Request_init d context (dict_get d ''eventRaisesExceptions'' (PBool True))
      | _ \<Rightarrow> Inl AttributeError)"

fun comprehension :: "pyval \<Rightarrow> (exn + pyval) list \<Rightarrow> exn + request list" where
  "comprehension context [] = Inr []"
| "comprehension context (Inl e # rest) = Inl e"
| "comprehension context (Inr record_event # rest) =
     and_then (record_request context record_event) (\<lambda>request.
     and_then (comprehension context rest) (\<lambda>requests. Inr (request # requests)))"

datatype parsed = Single request | Batch "request list"

text \<open>
  The event source of a payload that has no \<^verbatim>\<open>requestContext\<close>: \<open>Inr None\<close> where
  \<^verbatim>\<open>parse_request\<close> returns the empty list.
\<close>

definition event_source_of :: "dict \<Rightarrow> exn + pyval option" where
  "event_source_of event =
     (case getitem (PDict event) ''eventSource'' of
        Inl KeyError \<Rightarrow>
          (case and_then (and_then (getitem (PDict event) ''Records'') getitem0)
                  (\<lambda>first. getitem first ''eventSource'') of
             Inl IndexError \<Rightarrow> Inr None
           | Inl KeyError \<Rightarrow> Inr None
           | Inl e \<Rightarrow> Inl e
           | Inr src \<Rightarrow> Inr (Some src))
      | Inl e \<Rightarrow> Inl e
      | Inr src \<Rightarrow> Inr (Some src))"

definition parse_request :: "lib \<Rightarrow> dict \<Rightarrow> pyval \<Rightarrow> exn + parsed" where
  "parse_request ext event context =
     (if map_of event ''requestContext'' \<noteq> None
      then and_then (aws_Request_init event context (PBool True)) (\<lambda>r. Inr (Single r))
      else
        and_then (event_source_of event) (\<lambda>src.
          case src of
            None \<Rightarrow> Inr (Batch [])
          | Some event_source \<Rightarrow>
              and_then (source_suffix event_source) (\<lambda>suffix.
              and_then (getattr_parse_event suffix) (\<lambda>parser.
              and_then (parser ext event) (\<lambda>gen.
              and_then (comprehension context gen) (\<lambda>requests. Inr (Batch requests)))))))"

text \<open>\<^verbatim>\<open>request.event["eventData"]["messageId"]\<close>.\<close>

definition message_id :: "request \<Rightarrow> exn + pyval" where
  "message_id request =
     and_then (getitem (PDict (req_event request)) ''eventData'')
       (\<lambda>event_data. getitem event_data ''messageId'')"

text \<open>The list \<^verbatim>\<open>failures\<close> of \<^verbatim>\<open>_serialize_event_sqs\<close>.\<close>

fun failures :: "(response \<times> request) list \<Rightarrow> exn + pyval list" where
  "failures [] = Inr []"
| "failures ((response, request) # rest) =
     (if 400 \<le> resp_status_code response
      then and_then (message_id request) (\<lambda>m.
           and_then (failures rest) (\<lambda>ms. Inr (m # ms)))
      else failures rest)"

definition serialize_event_sqs :: "(response \<times> request) list \<Rightarrow> exn + pyval" where
  "serialize_event_sqs resp_req =
     and_then (failures resp_req) (\<lambda>fs.
       if fs \<noteq> []
       then Inr (PDict [(''batchItemFailures'',
                         PList (map (\<lambda>message_id. PDict [(''itemIdentifier'', message_id)]) fs))])
       else Inr PNone)"

text \<open>\<^verbatim>\<open>len(body)\<close>.\<close>

fun py_len :: "pyval \<Rightarrow> exn + nat" where
  "py_len (PStr s) = Inr (length s)"
| "py_len (PBytes b) = Inr (length b)"
| "py_len (PList l) = Inr (length l)"
| "py_len (PDict d) = Inr (length d)"
| "py_len _ = Inl TypeError"

text \<open>\<^verbatim>\<open>_render\<close> of \<^verbatim>\<open>Response\<close> and of \<^verbatim>\<open>JSONResponse\<close>, and \<^verbatim>\<open>Response.body\<close>.\<close>

definition render :: "lib \<Rightarrow> response \<Rightarrow> pyval \<Rightarrow> exn + pyval" where
  "render ext r cont =
     (if resp_json r then and_then (dumps ext cont) (\<lambda>s. Inr (PStr s)) else Inr cont)"

definition Response_body :: "lib \<Rightarrow> response \<Rightarrow> (exn + pyval) \<times> response" where
  "Response_body ext r =
     (let r1 = (if resp_content r = PNone \<and> 400 \<le> resp_status_code r
                then r\<lparr>resp_content :=
                        PDict [(''detail'', PStr (get_status_message ext (resp_status_code r)))]\<rparr>
                else r)
      in if resp_content r1 \<noteq> PNone then
           (case render ext r1 (resp_content r1) of
              Inl e \<Rightarrow> (Inl e, r1)
            | Inr body \<Rightarrow>
                (case py_len body of
                   Inl e \<Rightarrow> (Inl e, r1)
                 | Inr n \<Rightarrow>
                     (let h1 = AList.update ''content-length'' (PStr (str_int (int n)))
                                 (resp_headers r1);
                          h2 = (case resp_media_type r1 of
                                  None \<Rightarrow> h1
                                | Some mt \<Rightarrow> AList.update ''content-type'' (PStr mt) h1)
                      in (Inr body, r1\<lparr>resp_headers := h2\<rparr>))))
         else (Inr PNone, r1))"

text \<open>\<^verbatim>\<open>Backend.serialize_response\<close>: the envelope of a direct invocation.\<close>

definition serialize_response :: "lib \<Rightarrow> response \<Rightarrow> request \<Rightarrow> exn + pyval" where
  "serialize_response ext response request =
     (case Response_body ext response of
        (Inl e, r) \<Rightarrow> Inl e
      | (Inr body, r) \<Rightarrow>
          (let (body', is_base64_encoded) =
                 (case body of PBytes bs \<Rightarrow> (PStr (b64encode bs), True) | _ \<Rightarrow> (body, False))
           in Inr (PDict [(''body'', body'),
                          (''statusCode'', PStr (str_int (resp_status_code r))),
                          (''headers'', PDict (resp_headers r)),
                          (''isBase64Encoded'', PBool is_base64_encoded)])))"

text \<open>
  \<^verbatim>\<open>Backend.serialize_responses\<close>. \<^verbatim>\<open>_serialize_event_sqs\<close> is the only attribute of the
  class whose name starts with \<^verbatim>\<open>_serialize_event_\<close>; for another suffix \<^verbatim>\<open>getattr\<close>
  raises the AttributeError that the method answers with \<^verbatim>\<open>None\<close>.
\<close>

definition serialize_responses :: "(response \<times> request) list \<Rightarrow> exn + pyval" where
  "serialize_responses resp_req =
     (case resp_req of
        [] \<Rightarrow> Inr PNone
      | (first_resp, first_req) # rest \<Rightarrow>
          and_then (and_then (getitem (PDict (req_event first_req)) ''eventSource'') source_suffix)
            (\<lambda>suffix. if suffix = ''sqs'' then serialize_event_sqs resp_req else Inr PNone))"

section \<open>The handler (\<^verbatim>\<open>_core.py\<close>)\<close>

text \<open>
  A route function is user code: given its keyword arguments it may change the response
  in flight and the log event, and it returns a value, returns a response of its own, or
  raises. Waiting longer than \<^verbatim>\<open>FUNCTION_TIMEOUT\<close> is the outcome \<open>Inl TimeoutError\<close>.
  \<open>ArgResponse\<close> is the reference to the response in flight.
\<close>

datatype param_cls = RequestCls | ResponseCls

datatype arg = ArgValue pyval | ArgRequest request | ArgResponse

datatype retval = RetValue pyval | RetResponse response

type_synonym kwargs = "(string \<times> arg) list"

type_synonym route_function =
  "kwargs \<Rightarrow> response \<times> log_event \<Rightarrow> (exn + retval) \<times> response \<times> log_event"

record APIRoute =
  route_status_code :: int
  route_func :: route_function
  route_params :: "(string \<times> param_cls) list"

type_synonym routes = "(string \<times> (string \<times> APIRoute) list) list"

text \<open>
  The decorator of \<^verbatim>\<open>Handler._api_route\<close>; \<open>params\<close> is what \<^verbatim>\<open>_check_signature\<close> found in
  the signature of the function.
\<close>

definition api_route ::
  "string \<Rightarrow> string \<Rightarrow> int option \<Rightarrow> route_function \<Rightarrow> (string \<times> param_cls) list \<Rightarrow> routes
     \<Rightarrow> exn + routes" where
  "api_route path method status_code func params rts =
     (let path_routes = (case map_of rts path of None \<Rightarrow> [] | Some pr \<Rightarrow> pr)
      in case map_of path_routes method of
           None \<Rightarrow>
             Inr (AList.update path
                    (AList.update method
                       \<lparr>route_status_code =
                          (case status_code of None \<Rightarrow> 200 | Some c \<Rightarrow> if c \<noteq> 0 then c else 200),
                        route_func = func, route_params = params\<rparr>
                       path_routes)
                    rts)
         | Some r \<Rightarrow>
             Inl (ValueError (''Route already registered: '' @ method @ '' '' @ [CHR 0x22] @ path @
                              [CHR 0x22] @ ''.'')))"

text \<open>\<^verbatim>\<open>d[key]\<close> on a dict with \<^verbatim>\<open>str\<close> keys, for any key.\<close>

fun dict_lookup :: "(string \<times> 'v) list \<Rightarrow> pyval \<Rightarrow> exn + 'v" where
  "dict_lookup d (PStr k) = (case map_of d k of None \<Rightarrow> Inl KeyError | Some v \<Rightarrow> Inr v)"
| "dict_lookup d (PList l) = Inl TypeError"
| "dict_lookup d (PDict l) = Inl TypeError"
| "dict_lookup d _ = Inl KeyError"

text \<open>
  \<^verbatim>\<open>Handler._prepare_request\<close>: the response, and the route with the arguments of the call.
  \<open>lookup_route\<close> is its first part, the two lookups in \<^verbatim>\<open>self._routes\<close>.
\<close>

definition lookup_route :: "routes \<Rightarrow> request \<Rightarrow> exn + APIRoute" where
  "lookup_route rts request =
     (case dict_lookup rts (req_path request) of
        Inl KeyError \<Rightarrow> Inl (HTTPException 404 PNone PNone PNone)
      | Inl e \<Rightarrow> Inl e
      | Inr path_routes \<Rightarrow>
          (case dict_lookup path_routes (req_method request) of
             Inl KeyError \<Rightarrow> Inl (HTTPException 405 PNone PNone PNone)
           | Inl e \<Rightarrow> Inl e
           | Inr route \<Rightarrow> Inr route))"

definition inject :: "request \<Rightarrow> string \<times> param_cls \<Rightarrow> kwargs \<Rightarrow> kwargs" where
  "inject request p kw =
     (case snd p of
        RequestCls \<Rightarrow> AList.update (fst p) (ArgRequest request) kw
      | ResponseCls \<Rightarrow> AList.update (fst p) ArgResponse kw)"

definition prepare_request ::
  "lib \<Rightarrow> routes \<Rightarrow> request \<Rightarrow> log_event
     \<Rightarrow> (exn + response \<times> APIRoute \<times> kwargs) \<times> request \<times> log_event" where
  "prepare_request ext rts request ev =
     (case lookup_route rts request of
        Inl e \<Rightarrow> (Inl e, request, ev)
      | Inr route \<Rightarrow>
          (let (response, ev1) = JSONResponse PNone (route_status_code route) ev
           in case Request_json ext request of
                (Inl e, request') \<Rightarrow> (Inl e, request', ev1)
              | (Inr body, request') \<Rightarrow>
                  (let kwargs0 = (case body of
                                    PDict d \<Rightarrow> map (\<lambda>kv. (fst kv, ArgValue (snd kv))) d
                                  | _ \<Rightarrow> []);
                       kwargs = fold (inject request') (route_params route) kwargs0
                   in (Inr (response, route, kwargs), request', ev1))))"

text \<open>\<^verbatim>\<open>Handler._call_route_function\<close>.\<close>

definition call_route_function ::
  "APIRoute \<times> kwargs \<Rightarrow> response \<Rightarrow> log_event \<Rightarrow> (exn + response) \<times> log_event" where
  "call_route_function func response ev =
     (case route_func (fst func) (snd func) (response, ev) of
        (Inl e, response', ev') \<Rightarrow> (Inl e, ev')
      | (Inr (RetResponse r), response', ev') \<Rightarrow> (Inr r, ev')
      | (Inr (RetValue v), response', ev') \<Rightarrow>
          (let (r, ev'') = set_content v (response', ev') in (Inr r, ev'')))"

text \<open>The property \<^verbatim>\<open>HTTPException.error_detail\<close>.\<close>

definition error_detail :: "lib \<Rightarrow> pyval \<Rightarrow> pyval \<Rightarrow> pyval" where
  "error_detail ext detail err =
     (if truthy err then PStr (py_str ext err)
      else if truthy detail then PStr (py_str ext detail)
      else PNone)"

text \<open>The \<^verbatim>\<open>try\<close> block of \<^verbatim>\<open>Handler._handle_request\<close>.\<close>

definition route_request ::
  "lib \<Rightarrow> routes \<Rightarrow> request \<Rightarrow> log_event \<Rightarrow> (exn + response) \<times> request \<times> log_event" where
  "route_request ext rts request ev =
     (case prepare_request ext rts request ev of
        (Inl e, request', ev') \<Rightarrow> (Inl e, request', ev')
      | (Inr (response, route, kwargs), request', ev') \<Rightarrow>
          (let (res, ev'') = call_route_function (route, kwargs) response ev'
           in (res, request', ev'')))"

text \<open>
  \<^verbatim>\<open>Handler._handle_request\<close>: the outcome, the request with its caches, and the log event
  as it is when the scope closes.
\<close>

definition handle_request ::
  "lib \<Rightarrow> routes \<Rightarrow> request \<Rightarrow> (exn + response) \<times> request \<times> log_event" where
  "handle_request ext rts request =
     (let event = create_event (req_method request) (req_path request)
                    (dict_get (req_headers request) ''x-request-id'' PNone)
                    (dict_get (req_headers request) ''user-agent'' PNone)
      in case route_request ext rts request event of
           (Inr response, request', ev) \<Rightarrow> (Inr response, request', ev)
         | (Inl (HTTPException status detail hdrs err), request', ev) \<Rightarrow>
             (let ev1 = ev\<lparr>ev_error_detail := error_detail ext detail err\<rparr>;
                  ev2 = ev1\<lparr>ev_status_code := Some status\<rparr>;
                  (response, ev3) =
                    JSONResponse (if detail = PNone then PNone else PDict [(''detail'', detail)])
                      status ev2
              in (Inr response, request', ev3))
         | (Inl (ValidationError errors), request', ev) \<Rightarrow>
             (let ev1 = ev\<lparr>ev_error_detail := errors\<rparr>;
                  ev2 = ev1\<lparr>ev_status_code := Some 422\<rparr>;
                  (response, ev3) = JSONResponse (PDict [(''detail'', errors)]) 422 ev2
              in (Inr response, request', ev3))
         | (Inl exception, request', ev) \<Rightarrow>
             (if is_Exception exception then
                (let ((status_code, message), ev1) = status_code_from_exception ext exception ev;
                     (response, ev2) = JSONResponse message status_code ev1
                 in if truthy (req_raises_exceptions request')
                    then (Inl exception, request', ev2)
                    else (Inr response, request', ev2))
              else (Inl exception, request', ev)))"

text \<open>
  \<^verbatim>\<open>asyncio.gather\<close>. The attempts run interleaved on one loop; \<open>sched\<close> lists their
  positions in the order in which they complete, and \<open>outs\<close> is the outcome of each attempt
  by position. An attempt that returns fills the slot of its position; the first that
  raises ends the wait with its exception. The result is \<open>None\<close> while an attempt has
  neither returned nor raised.
\<close>

fun gather_run :: "nat list \<Rightarrow> (exn + 'a) list \<Rightarrow> 'a option list \<Rightarrow> (exn + 'a list) option" where
  "gather_run [] outs slots = map_option Inr (those slots)"
| "gather_run (i # sched) outs slots =
     (if i < length outs then
        (case outs ! i of
           Inl e \<Rightarrow> Some (Inl e)
         | Inr v \<Rightarrow> gather_run sched outs (slots[i := Some v]))
      else gather_run sched outs slots)"

definition gather :: "nat list \<Rightarrow> (exn + 'a) list \<Rightarrow> (exn + 'a list) option" where
  "gather sched outs = gather_run sched outs (replicate (length outs) None)"

text \<open>
  \<^verbatim>\<open>Handler._handle_requests\<close>, with the requests as the attempts leave them (the caller
  zips the responses with the same objects).
\<close>

definition handle_requests ::
  "lib \<Rightarrow> routes \<Rightarrow> nat list \<Rightarrow> request list \<Rightarrow> (exn + response list) option \<times> request list" where
  "handle_requests ext rts sched requests =
     (let results = map (handle_request ext rts) requests
      in (gather sched (map fst results), map (\<lambda>x. fst (snd x)) results))"

text \<open>
  \<^verbatim>\<open>Handler.__acall__\<close>. \<open>dispatch\<close> is the argument that the batch branch hands to
  \<^verbatim>\<open>serialize_responses\<close>.
\<close>

definition dispatch ::
  "lib \<Rightarrow> routes \<Rightarrow> nat list \<Rightarrow> request list \<Rightarrow> (exn + (response \<times> request) list) option" where
  "dispatch ext rts sched requests =
     (case handle_requests ext rts sched requests of
        (None, requests') \<Rightarrow> None
      | (Some (Inl e), requests') \<Rightarrow> Some (Inl e)
      | (Some (Inr responses), requests') \<Rightarrow> Some (Inr (zip responses requests')))"

definition acall :: "lib \<Rightarrow> routes \<Rightarrow> nat list \<Rightarrow> dict \<Rightarrow> pyval \<Rightarrow> (exn + pyval) option" where
  "acall ext rts sched event context =
     (case parse_request ext event context of
        Inl e \<Rightarrow> Some (Inl e)
      | Inr (Single request) \<Rightarrow>
          (case handle_request ext rts request of
             (Inl e, request', ev) \<Rightarrow> Some (Inl e)
           | (Inr response, request', ev) \<Rightarrow> Some (serialize_response ext response request'))
      | Inr (Batch requests) \<Rightarrow>
          (case dispatch ext rts sched requests of
             None \<Rightarrow> None
           | Some (Inl e) \<Rightarrow> Some (Inl e)
           | Some (Inr resp_req) \<Rightarrow> Some (serialize_responses resp_req)))"

text \<open>
  The routes of a program: the decorators run one after the other when the module is
  loaded, and the first that raises ends the load.
\<close>

type_synonym registration =
  "string \<times> string \<times> int option \<times> route_function \<times> (string \<times> param_cls) list"

fun register :: "registration list \<Rightarrow> routes \<Rightarrow> exn + routes" where
  "register [] rts = Inr rts"
| "register ((path, method, status_code, func, params) # regs) rts =
     and_then (api_route path method status_code func params rts) (register regs)"

text \<open>The route that the table holds for a path and a method.\<close>

definition route_at :: "routes \<Rightarrow> string \<Rightarrow> string \<Rightarrow> APIRoute option" where
  "route_at rts path method =
     (case map_of rts path of None \<Rightarrow> None | Some path_routes \<Rightarrow> map_of path_routes method)"

text \<open>The route that a registration stores.\<close>

definition registered_route :: "registration \<Rightarrow> APIRoute" where
  "registered_route reg =
     (case reg of (path, method, status_code, func, params) \<Rightarrow>
        \<lparr>route_status_code =
           (case status_code of None \<Rightarrow> 200 | Some c \<Rightarrow> if c \<noteq> 0 then c else 200),
         route_func = func, route_params = params\<rparr>)"

text \<open>The flags \<^verbatim>\<open>raises_exceptions\<close> of the parsed requests, in order.\<close>

definition raises_flags :: "parsed \<Rightarrow> pyval list" where
  "raises_flags p =
     (case p of Single r \<Rightarrow> [req_raises_exceptions r] | Batch rs \<Rightarrow> map req_raises_exceptions rs)"

section \<open>Fixtures\<close>

text \<open>
  Concrete collaborators, routes and payloads, after \<^verbatim>\<open>tests/conftest.py\<close> and
  \<^verbatim>\<open>tests/test_backend_aws_lambda.py\<close>, on which the theorems below are evaluated.
  \<open>fixture_loads\<close> decodes the texts of the fixtures only: \<^verbatim>\<open>req204\<close>, \<^verbatim>\<open>req400\<close> and
  \<^verbatim>\<open>req500\<close> stand for the JSON texts of the events of the tests of the same names, and
  every other text but \<^verbatim>\<open>{}\<close> is rejected. On the byte 255, which is not UTF-8, it raises
  the \<^verbatim>\<open>UnicodeDecodeError\<close> (a \<^verbatim>\<open>ValueError\<close>) that \<^verbatim>\<open>json.loads\<close> of the standard library
  raises there.
\<close>

definition fixture_event :: "string \<Rightarrow> string \<Rightarrow> pyval \<Rightarrow> dict" where
  "fixture_event path method body =
     [(''version'', PStr ''2.0''), (''rawPath'', PStr path), (''headers'', PDict []),
      (''requestContext'',
         PDict [(''http'', PDict [(''method'', PStr method), (''path'', PStr path)]),
                (''requestId'', PStr ''0a1b2c3d'')]),
      (''isBase64Encoded'', PBool False), (''body'', body)]"

definition fixture_loads :: "pyval \<Rightarrow> exn + pyval" where
  "fixture_loads v =
     (if v = PStr ''req204'' then Inr (PDict (fixture_event ''/'' ''GET'' (PStr ''{}'')))
      else if v = PStr ''req400'' then Inr (PDict (fixture_event ''/raise_400'' ''GET'' (PStr ''{}'')))
      else if v = PStr ''req500'' then Inr (PDict (fixture_event ''/raise_500'' ''GET'' (PStr ''{}'')))
      else if v = PStr ''{}'' \<or> v = PBytes [123, 125] then Inr (PDict [])
      else if v = PBytes [255] then Inl (ValueError ''UnicodeDecodeError'')
      else Inl JSONDecodeError)"

definition fixture_quote :: "string \<Rightarrow> string" where
  "fixture_quote s = [CHR 0x22] @ s @ [CHR 0x22]"

fun fixture_dumps :: "pyval \<Rightarrow> exn + string" where
  "fixture_dumps PNone = Inr ''null''"
| "fixture_dumps (PBool b) = Inr (if b then ''true'' else ''false'')"
| "fixture_dumps (PInt i) = Inr (str_int i)"
| "fixture_dumps (PStr s) = Inr (fixture_quote s)"
| "fixture_dumps (PDict [(k, PStr s)]) = Inr (''{'' @ fixture_quote k @ '':'' @ fixture_quote s @ ''}'')"
| "fixture_dumps _ = Inl TypeError"

definition fixture_status_message :: "int \<Rightarrow> string" where
  "fixture_status_message code =
     (if code = 400 then ''Bad Request''
      else if code = 404 then ''Not Found''
      else if code = 405 then ''Method Not Allowed''
      else if code = 500 then ''Internal Server Error''
      else [])"

definition fixture_classifier :: "exn \<Rightarrow> log_event \<Rightarrow> (int \<times> pyval) \<times> log_event" where
  "fixture_classifier e ev = ((500, PNone), ev\<lparr>ev_error_detail := PStr ''Traceback''\<rparr>)"

definition fixture_lib :: lib where
  "fixture_lib =
     \<lparr>loads = fixture_loads, dumps = fixture_dumps, get_status_message = fixture_status_message,
      status_code_from_exception = fixture_classifier,
      py_str = (\<lambda>v. case v of PStr s \<Rightarrow> s | _ \<Rightarrow> [])\<rparr>"

definition fixture_get :: route_function where
  "fixture_get kw st = (Inr (RetValue PNone), st)"

definition fixture_get400 :: route_function where
  "fixture_get400 kw st = (Inl (HTTPException 400 PNone PNone PNone), st)"

definition fixture_get500 :: route_function where
  "fixture_get500 kw st = (Inl (ValueError ''Invalid value.''), st)"

definition fixture_registrations :: "registration list" where
  "fixture_registrations =
     [(''/'', ''GET'', None, fixture_get, []),
      (''/'', ''POST'', None, fixture_get, []),
      (''/get_only'', ''GET'', None, fixture_get, []),
      (''/raise_400'', ''GET'', None, fixture_get400, []),
      (''/raise_500'', ''GET'', None, fixture_get500, [])]"

definition fixture_routes :: routes where
  "fixture_routes = (case register fixture_registrations [] of Inl e \<Rightarrow> [] | Inr rts \<Rightarrow> rts)"

definition fixture_sqs_event :: dict where
  "fixture_sqs_event =
     [(''Records'',
       PList [PDict [(''messageId'', PStr ''1''), (''body'', PStr ''req204''),
                     (''eventSource'', PStr ''aws:sqs'')],
              PDict [(''messageId'', PStr ''2''), (''body'', PStr ''req400''),
                     (''eventSource'', PStr ''aws:sqs'')],
              PDict [(''messageId'', PStr ''3''), (''body'', PStr ''req500''),
                     (''eventSource'', PStr ''aws:sqs'')],
              PDict [(''messageId'', PStr ''4''), (''body'', PStr ''req204''),
                     (''eventSource'', PStr ''aws:sqs'')]])]"

definition fixture_sns_event :: "string \<Rightarrow> dict" where
  "fixture_sns_event message =
     [(''Records'',
       PList [PDict [(''messageId'', PStr ''1''), (''Sns'', PDict [(''Message'', PStr message)]),
                     (''eventSource'', PStr ''aws:sns'')]])]"

definition fixture_mq_event :: "string \<Rightarrow> dict" where
  "fixture_mq_event message =
     [(''eventSource'', PStr ''aws:mq''),
      (''messages'', PList [PDict [(''messageId'', PStr ''1''), (''data'', PStr message)]])]"

definition fixture_request :: "string \<Rightarrow> string \<Rightarrow> bool \<Rightarrow> request" where
  "fixture_request src mid raises =
     \<lparr>req_aws = True, req_path = PStr ''/'', req_method = PStr ''GET'', req_headers = [],
      req_body = None, req_json = None, req_raises_exceptions = PBool raises,
      req_event = [(''eventSource'', PStr src), (''eventData'', PDict [(''messageId'', PStr mid)])],
      req_context = PNone\<rparr>"

text \<open>The requests that \<^verbatim>\<open>parse_request\<close> makes of a batch payload.\<close>

definition fixture_requests :: "dict \<Rightarrow> request list" where
  "fixture_requests event =
     (case parse_request fixture_lib event PNone of Inr (Batch rs) \<Rightarrow> rs | _ \<Rightarrow> [])"

text \<open>The request that \<^verbatim>\<open>parse_request\<close> makes of \<open>fixture_event path method body\<close>.\<close>

definition fixture_direct :: "string \<Rightarrow> string \<Rightarrow> pyval \<Rightarrow> request" where
  "fixture_direct path method body =
     \<lparr>req_aws = True, req_path = PStr path, req_method = PStr method,
      req_headers = [(''x-request-id'', PStr ''0a1b2c3d'')],
      req_body = None, req_json = None, req_raises_exceptions = PBool True,
      req_event = fixture_event path method body, req_context = PNone\<rparr>"

definition fixture_response :: "pyval \<Rightarrow> int \<Rightarrow> response" where
  "fixture_response cont status = fst (JSONResponse cont status (create_event PNone PNone PNone PNone))"

section \<open>The queue serializer\<close>

lemma failures_filter:
  assumes "\<forall>p \<in> set resp_req.
             400 \<le> resp_status_code (fst p) \<longrightarrow> message_id (snd p) = Inr (ident (snd p))"
  shows "failures resp_req =
         Inr (map (\<lambda>p. ident (snd p)) (filter (\<lambda>p. 400 \<le> resp_status_code (fst p)) resp_req))"
  using assms by (induction resp_req rule: failures.induct) simp_all

text \<open>
  C1. When every pair with a status of 400 or more carries a message id (\<open>ident\<close> names
  it), \<^verbatim>\<open>_serialize_event_sqs\<close> reports exactly the ids of these pairs, in order, under
  \<^verbatim>\<open>batchItemFailures\<close>; when no pair has such a status it returns \<^verbatim>\<open>None\<close>, and it never
  returns a report with an empty list.
\<close>

theorem sqs_failure_report:
  assumes "\<forall>p \<in> set resp_req.
             400 \<le> resp_status_code (fst p) \<longrightarrow> message_id (snd p) = Inr (ident (snd p))"
  shows "serialize_event_sqs resp_req =
           (if filter (\<lambda>p. 400 \<le> resp_status_code (fst p)) resp_req = [] then Inr PNone
            else Inr (PDict [(''batchItemFailures'',
                       PList (map (\<lambda>p. PDict [(''itemIdentifier'', ident (snd p))])
                                (filter (\<lambda>p. 400 \<le> resp_status_code (fst p)) resp_req)))]))
         \<and> serialize_event_sqs resp_req \<noteq> Inr (PDict [(''batchItemFailures'', PList [])])"
proof -
  have f: "failures resp_req =
         Inr (map (\<lambda>p. ident (snd p)) (filter (\<lambda>p. 400 \<le> resp_status_code (fst p)) resp_req))"
    by (rule failures_filter [OF assms])
  have 1: "serialize_event_sqs resp_req =
           (if filter (\<lambda>p. 400 \<le> resp_status_code (fst p)) resp_req = [] then Inr PNone
            else Inr (PDict [(''batchItemFailures'',
                       PList (map (\<lambda>p. PDict [(''itemIdentifier'', ident (snd p))])
                                (filter (\<lambda>p. 400 \<le> resp_status_code (fst p)) resp_req)))]))"
    unfolding serialize_event_sqs_def f by (simp add: comp_def)
  have 2: "serialize_event_sqs resp_req \<noteq> Inr (PDict [(''batchItemFailures'', PList [])])"
    unfolding 1 by simp
  from 1 2 show ?thesis by blast
qed

text \<open>
  The batch of four of the tests, where the second and the third item fail, and a batch
  where none does.
\<close>

theorem sqs_failure_report_witness:
  "serialize_event_sqs
     [(fixture_response PNone 200, fixture_request ''aws:sqs'' ''1'' False),
      (fixture_response PNone 400, fixture_request ''aws:sqs'' ''2'' False),
      (fixture_response PNone 500, fixture_request ''aws:sqs'' ''3'' False),
      (fixture_response PNone 200, fixture_request ''aws:sqs'' ''4'' False)] =
   Inr (PDict [(''batchItemFailures'',
                PList [PDict [(''itemIdentifier'', PStr ''2'')],
                       PDict [(''itemIdentifier'', PStr ''3'')]])])
   \<and> serialize_event_sqs
     [(fixture_response PNone 200, fixture_request ''aws:sqs'' ''1'' False),
      (fixture_response PNone 200, fixture_request ''aws:sqs'' ''2'' False)] = Inr PNone"
proof -
  let ?ident = "\<lambda>r. case message_id r of Inr m \<Rightarrow> m | Inl e \<Rightarrow> PNone"
  let ?a = "[(fixture_response PNone 200, fixture_request ''aws:sqs'' ''1'' False),
      (fixture_response PNone 400, fixture_request ''aws:sqs'' ''2'' False),
      (fixture_response PNone 500, fixture_request ''aws:sqs'' ''3'' False),
      (fixture_response PNone 200, fixture_request ''aws:sqs'' ''4'' False)]"
  let ?b = "[(fixture_response PNone 200, fixture_request ''aws:sqs'' ''1'' False),
      (fixture_response PNone 200, fixture_request ''aws:sqs'' ''2'' False)]"
  have st: "resp_status_code (fixture_response PNone 200) = 204"
    "resp_status_code (fixture_response PNone 400) = 400"
    "resp_status_code (fixture_response PNone 500) = 500"
    by (simp_all add: fixture_response_def Response_init_def set_status_code_def Let_def)
  have mid: "\<And>m. message_id (fixture_request ''aws:sqs'' m False) = Inr (PStr m)"
    by (simp add: message_id_def fixture_request_def)
  have ha: "\<forall>p \<in> set ?a.
             400 \<le> resp_status_code (fst p) \<longrightarrow> message_id (snd p) = Inr (?ident (snd p))"
    by (simp add: mid)
  have hb: "\<forall>p \<in> set ?b.
             400 \<le> resp_status_code (fst p) \<longrightarrow> message_id (snd p) = Inr (?ident (snd p))"
    by (simp add: mid)
  from sqs_failure_report [OF ha] sqs_failure_report [OF hb] show ?thesis
    by (simp add: st mid)
qed

section \<open>The empty batch\<close>

lemma gather_Nil: "gather sched ([] :: (exn + 'a) list) = Some (Inr [])"
  unfolding gather_def by (induction sched) simp_all

text \<open>
  C10. \<^verbatim>\<open>serialize_responses\<close> of no pair is \<^verbatim>\<open>None\<close>, whatever the trigger, and an
  invocation whose payload parses to the empty batch returns \<^verbatim>\<open>None\<close>: it neither raises
  nor waits.
\<close>

theorem empty_batch_no_ack:
  "serialize_responses [] = Inr PNone \<and>
   (parse_request ext event context = Inr (Batch [])
      \<longrightarrow> acall ext rts sched event context = Some (Inr PNone))"
  by (simp add: acall_def dispatch_def handle_requests_def gather_Nil serialize_responses_def)

text \<open>The queue payload with no record, of the tests.\<close>

theorem empty_batch_no_ack_witness:
  "parse_request fixture_lib [(''Records'', PList [])] PNone = Inr (Batch []) \<and>
   acall fixture_lib fixture_routes [] [(''Records'', PList [])] PNone = Some (Inr PNone)"
proof -
  have h: "parse_request fixture_lib [(''Records'', PList [])] PNone = Inr (Batch [])"
    by (simp add: parse_request_def event_source_of_def)
  from empty_batch_no_ack [of fixture_lib "[(''Records'', PList [])]" PNone fixture_routes "[]"] h
  show ?thesis by simp
qed

section \<open>Status and content of a response\<close>

lemma JSONResponse_eq:
  "JSONResponse c st ev =
     (\<lparr>resp_json = True, resp_content = c,
       resp_status_code = (if c = PNone \<and> st = 200 then 204 else st),
       resp_headers = [(''x-request-id'', ev_id ev)],
       resp_media_type = Some ''application/json''\<rparr>,
      ev\<lparr>ev_status_code := Some (if c = PNone \<and> st = 200 then 204 else st)\<rparr>)"
  by (simp add: Response_init_def set_status_code_def MEDIA_TYPE_def Let_def)

lemma handle_request_returns_None:
  assumes "lookup_route rts request = Inr route"
    and "route_status_code route = 200"
    and "fst (Request_json ext request) = Inr body"
    and "\<forall>kw st. route_func route kw st = (Inr (RetValue PNone), st)"
  shows "\<exists>response request' ev'.
           handle_request ext rts request = (Inr response, request', ev') \<and>
           resp_status_code response = 204 \<and> resp_content response = PNone \<and>
           ev_status_code ev' = Some 204"
proof -
  obtain r1 where j: "Request_json ext request = (Inr body, r1)"
    using assms(3) by (cases "Request_json ext request") auto
  show ?thesis
    using assms(1,2,4) j
    by (simp add: handle_request_def route_request_def prepare_request_def call_route_function_def
        JSONResponse_eq set_content_def Let_def)
qed

text \<open>
  C6. Setting the status to 200 on a response without content stores 204; setting a
  content that is not \<^verbatim>\<open>None\<close> on a response whose status is 204 stores 200. A route with
  the default status 200 whose function returns \<^verbatim>\<open>None\<close> and leaves the response alone
  is answered with status 204, and a content set on that response afterwards makes it 200.
\<close>

theorem status_content_coupling:
  "(resp_content r = PNone \<longrightarrow> resp_status_code (fst (set_status_code 200 (r, ev))) = 204) \<and>
   (v \<noteq> PNone \<and> resp_status_code r = 204 \<longrightarrow>
      resp_status_code (fst (set_content v (r, ev))) = 200 \<and>
      resp_content (fst (set_content v (r, ev))) = v) \<and>
   (lookup_route rts request = Inr route \<and> route_status_code route = 200 \<and>
    fst (Request_json ext request) = Inr body \<and>
    (\<forall>kw st. route_func route kw st = (Inr (RetValue PNone), st)) \<longrightarrow>
      (\<exists>response request' ev'.
         handle_request ext rts request = (Inr response, request', ev') \<and>
         resp_status_code response = 204 \<and>
         (v \<noteq> PNone \<longrightarrow> resp_status_code (fst (set_content v (response, ev'))) = 200)))"
proof -
  have 1: "resp_content r = PNone \<longrightarrow> resp_status_code (fst (set_status_code 200 (r, ev))) = 204"
    by (simp add: set_status_code_def)
  have 2: "\<And>r ev. v \<noteq> PNone \<and> resp_status_code r = 204 \<longrightarrow>
      resp_status_code (fst (set_content v (r, ev))) = 200 \<and>
      resp_content (fst (set_content v (r, ev))) = v"
    by (simp add: set_content_def Let_def)
  have 3: "lookup_route rts request = Inr route \<and> route_status_code route = 200 \<and>
    fst (Request_json ext request) = Inr body \<and>
    (\<forall>kw st. route_func route kw st = (Inr (RetValue PNone), st)) \<longrightarrow>
      (\<exists>response request' ev'.
         handle_request ext rts request = (Inr response, request', ev') \<and>
         resp_status_code response = 204 \<and>
         (v \<noteq> PNone \<longrightarrow> resp_status_code (fst (set_content v (response, ev'))) = 200))"
  proof
    assume a: "lookup_route rts request = Inr route \<and> route_status_code route = 200 \<and>
      fst (Request_json ext request) = Inr body \<and>
      (\<forall>kw st. route_func route kw st = (Inr (RetValue PNone), st))"
    then obtain response request' ev' where
      h: "handle_request ext rts request = (Inr response, request', ev')"
         "resp_status_code response = 204"
      using handle_request_returns_None [of rts request route ext body] by blast
    with 2 [of response ev'] show "\<exists>response request' ev'.
         handle_request ext rts request = (Inr response, request', ev') \<and>
         resp_status_code response = 204 \<and>
         (v \<noteq> PNone \<longrightarrow> resp_status_code (fst (set_content v (response, ev'))) = 200)"
      by blast
  qed
  from 1 2 [of r ev] 3 show ?thesis by blast
qed

lemma fixture_routes_eq:
  "fixture_routes =
     [(''/'', [(''GET'', registered_route (''/'', ''GET'', None, fixture_get, [])),
               (''POST'', registered_route (''/'', ''POST'', None, fixture_get, []))]),
      (''/get_only'', [(''GET'', registered_route (''/get_only'', ''GET'', None, fixture_get, []))]),
      (''/raise_400'', [(''GET'', registered_route (''/raise_400'', ''GET'', None, fixture_get400, []))]),
      (''/raise_500'', [(''GET'', registered_route (''/raise_500'', ''GET'', None, fixture_get500, []))])]"
  by (simp add: fixture_routes_def fixture_registrations_def api_route_def registered_route_def)

lemma parse_fixture_event:
  "parse_request fixture_lib (fixture_event path method body) PNone =
     Inr (Single (fixture_direct path method body))"
  by (simp add: parse_request_def fixture_event_def aws_Request_init_def dict_get_def
      setdefault_def Request_init_def lower_keys_def lower_def lower_char_def fixture_direct_def)

text \<open>The route \<^verbatim>\<open>GET /\<close> of the tests, whose function returns \<^verbatim>\<open>None\<close>.\<close>

theorem status_content_coupling_witness:
  "resp_content (fixture_response PNone 200) = PNone \<and>
   resp_status_code (fst (set_status_code 200
      (fixture_response PNone 200, create_event PNone PNone PNone PNone))) = 204 \<and>
   resp_status_code (fixture_response PNone 200) = 204 \<and>
   resp_status_code (fst (set_content (PStr ''get'')
      (fixture_response PNone 200, create_event PNone PNone PNone PNone))) = 200 \<and>
   lookup_route fixture_routes (fixture_direct ''/'' ''GET'' PNone) =
     Inr (registered_route (''/'', ''GET'', None, fixture_get, [])) \<and>
   (\<exists>response request' ev'.
      handle_request fixture_lib fixture_routes (fixture_direct ''/'' ''GET'' PNone) =
        (Inr response, request', ev') \<and>
      resp_status_code response = 204 \<and>
      resp_status_code (fst (set_content (PStr ''get'') (response, ev'))) = 200)"
proof -
  let ?r = "fixture_response PNone 200"
  let ?ev = "create_event PNone PNone PNone PNone"
  let ?req = "fixture_direct ''/'' ''GET'' PNone"
  let ?route = "registered_route (''/'', ''GET'', None, fixture_get, [])"
  have c: "resp_content ?r = PNone" and s: "resp_status_code ?r = 204"
    by (simp_all add: fixture_response_def JSONResponse_eq)
  have l: "lookup_route fixture_routes ?req = Inr ?route"
    by (simp add: lookup_route_def fixture_routes_eq fixture_direct_def)
  have d: "route_status_code ?route = 200"
    by (simp add: registered_route_def)
  have j: "fst (Request_json fixture_lib ?req) = Inr PNone"
    by (simp add: Request_json_def Request_body_def aws_Request_body_def fixture_direct_def
        fixture_event_def dict_get_def)
  have f: "\<forall>kw st. route_func ?route kw st = (Inr (RetValue PNone), st)"
    by (simp add: registered_route_def fixture_get_def)
  from status_content_coupling [of ?r ?ev "PStr ''get''" fixture_routes ?req ?route fixture_lib PNone]
    c s l d j f
  show ?thesis by simp
qed

section \<open>The JSON view of a request\<close>

text \<open>
  C7, as the code has it. Of a request whose JSON view is not computed yet and whose
  \<^verbatim>\<open>body()\<close> returns \<open>body\<close>: the view is \<^verbatim>\<open>None\<close> when the body is \<^verbatim>\<open>None\<close>; it is the
  decoded value when the decoder accepts the body; when the decoder rejects the body with
  \<^verbatim>\<open>JSONDecodeError\<close> it is the raw body itself, not \<^verbatim>\<open>None\<close>; and when the decoder raises
  any other exception, \<^verbatim>\<open>Request.json\<close> raises that exception. A value that is returned is
  stored: a later call returns it without decoding again.
\<close>

theorem request_json_view:
  assumes "req_json r = None" and "Request_body r = (Inr body, r')"
  shows "(body = PNone \<longrightarrow> fst (Request_json ext r) = Inr PNone) \<and>
         (body \<noteq> PNone \<and> loads ext body = Inr v \<longrightarrow> fst (Request_json ext r) = Inr v) \<and>
         (body \<noteq> PNone \<and> loads ext body = Inl JSONDecodeError \<longrightarrow>
            fst (Request_json ext r) = Inr body) \<and>
         (body \<noteq> PNone \<and> loads ext body = Inl e \<and> e \<noteq> JSONDecodeError \<longrightarrow>
            fst (Request_json ext r) = Inl e) \<and>
         (\<forall>x r2. Request_json ext r = (Inr x, r2) \<longrightarrow> Request_json ext2 r2 = (Inr x, r2))"
proof -
  have eq: "Request_json ext r =
      (if body \<noteq> PNone then
         (case loads ext body of
            Inl JSONDecodeError \<Rightarrow> (Inr body, r'\<lparr>req_json := Some body\<rparr>)
          | Inl e \<Rightarrow> (Inl e, r')
          | Inr v \<Rightarrow> (Inr v, r'\<lparr>req_json := Some v\<rparr>))
       else (Inr body, r'\<lparr>req_json := Some body\<rparr>))"
    using assms by (simp add: Request_json_def)
  have 1: "body = PNone \<longrightarrow> fst (Request_json ext r) = Inr PNone"
    unfolding eq by simp
  have 2: "body \<noteq> PNone \<and> loads ext body = Inr v \<longrightarrow> fst (Request_json ext r) = Inr v"
    unfolding eq by simp
  have 3: "body \<noteq> PNone \<and> loads ext body = Inl JSONDecodeError \<longrightarrow>
            fst (Request_json ext r) = Inr body"
    unfolding eq by simp
  have 4: "body \<noteq> PNone \<and> loads ext body = Inl e \<and> e \<noteq> JSONDecodeError \<longrightarrow>
            fst (Request_json ext r) = Inl e"
    unfolding eq by (cases e) simp_all
  have stored: "req_json r2 = Some x" if "Request_json ext r = (Inr x, r2)" for x r2
  proof (cases "body = PNone")
    case True
    with that show ?thesis unfolding eq by auto
  next
    case False
    show ?thesis
    proof (cases "loads ext body")
      case (Inr w)
      with that False show ?thesis unfolding eq by auto
    next
      case (Inl e)
      with that False show ?thesis unfolding eq by (cases e) auto
    qed
  qed
  have 5: "\<forall>x r2. Request_json ext r = (Inr x, r2) \<longrightarrow> Request_json ext2 r2 = (Inr x, r2)"
    using stored by (simp add: Request_json_def)
  from 1 2 3 4 5 show ?thesis by blast
qed

text \<open>
  Requests with the body \<^verbatim>\<open>{}\<close>, with the body \<^verbatim>\<open>{\<close>, with the byte 255 as body, and with
  no body.
\<close>

theorem request_json_view_witness:
  "fst (Request_json fixture_lib
         (Request_init (PStr ''/'') (PStr ''POST'') None (PBytes [123, 125]) (PBool False))) =
     Inr (PDict []) \<and>
   loads fixture_lib (PBytes [123]) = Inl JSONDecodeError \<and>
   fst (Request_json fixture_lib
         (Request_init (PStr ''/'') (PStr ''POST'') None (PBytes [123]) (PBool False))) =
     Inr (PBytes [123]) \<and>
   loads fixture_lib (PBytes [255]) = Inl (ValueError ''UnicodeDecodeError'') \<and>
   fst (Request_json fixture_lib
         (Request_init (PStr ''/'') (PStr ''POST'') None (PBytes [255]) (PBool False))) =
     Inl (ValueError ''UnicodeDecodeError'') \<and>
   fst (Request_json fixture_lib
         (Request_init (PStr ''/'') (PStr ''GET'') None PNone (PBool False))) = Inr PNone"
proof -
  let ?a = "Request_init (PStr ''/'') (PStr ''POST'') None (PBytes [123, 125]) (PBool False)"
  let ?b = "Request_init (PStr ''/'') (PStr ''POST'') None (PBytes [123]) (PBool False)"
  let ?c = "Request_init (PStr ''/'') (PStr ''POST'') None (PBytes [255]) (PBool False)"
  let ?d = "Request_init (PStr ''/'') (PStr ''GET'') None PNone (PBool False)"
  have a: "req_json ?a = None" "Request_body ?a = (Inr (PBytes [123, 125]), ?a)"
    by (simp_all add: Request_init_def Request_body_def base_Request_body_def)
  have b: "req_json ?b = None" "Request_body ?b = (Inr (PBytes [123]), ?b)"
    by (simp_all add: Request_init_def Request_body_def base_Request_body_def)
  have c: "req_json ?c = None" "Request_body ?c = (Inr (PBytes [255]), ?c)"
    by (simp_all add: Request_init_def Request_body_def base_Request_body_def)
  have d: "req_json ?d = None" "Request_body ?d = (Inr PNone, ?d)"
    by (simp_all add: Request_init_def Request_body_def base_Request_body_def)
  have la: "loads fixture_lib (PBytes [123, 125]) = Inr (PDict [])"
    by (simp add: fixture_lib_def fixture_loads_def)
  have lb: "loads fixture_lib (PBytes [123]) = Inl JSONDecodeError"
    by (simp add: fixture_lib_def fixture_loads_def)
  have lc: "loads fixture_lib (PBytes [255]) = Inl (ValueError ''UnicodeDecodeError'')"
    by (simp add: fixture_lib_def fixture_loads_def)
  have 1: "fst (Request_json fixture_lib ?a) = Inr (PDict [])"
    using request_json_view [OF a, of fixture_lib "PDict []" JSONDecodeError fixture_lib,
        THEN conjunct2, THEN conjunct1] la
    by simp
  have 2: "fst (Request_json fixture_lib ?b) = Inr (PBytes [123])"
    using request_json_view [OF b, of fixture_lib PNone JSONDecodeError fixture_lib,
        THEN conjunct2, THEN conjunct2, THEN conjunct1] lb
    by simp
  have 3: "fst (Request_json fixture_lib ?c) = Inl (ValueError ''UnicodeDecodeError'')"
    using request_json_view [OF c, of fixture_lib PNone "ValueError ''UnicodeDecodeError''"
        fixture_lib, THEN conjunct2, THEN conjunct2, THEN conjunct2, THEN conjunct1] lc
    by simp
  have 4: "fst (Request_json fixture_lib ?d) = Inr PNone"
    using request_json_view [OF d, of fixture_lib PNone JSONDecodeError fixture_lib,
        THEN conjunct1]
    by simp
  from 1 lb 2 lc 3 4 show ?thesis by blast
qed

text \<open>
  The claim as the specification states it fails on the body \<^verbatim>\<open>{\<close>: the body is
  present, the decoder rejects it, and the JSON view is the body, not \<^verbatim>\<open>None\<close>.
\<close>

theorem request_json_malformed_counterexample:
  "fst (Request_body (Request_init (PStr ''/'') (PStr ''POST'') None (PBytes [123]) (PBool False))) =
     Inr (PBytes [123]) \<and>
   loads fixture_lib (PBytes [123]) = Inl JSONDecodeError \<and>
   fst (Request_json fixture_lib
         (Request_init (PStr ''/'') (PStr ''POST'') None (PBytes [123]) (PBool False))) \<noteq> Inr PNone"
  by (simp add: Request_json_def Request_init_def Request_body_def base_Request_body_def
      fixture_lib_def fixture_loads_def)

section \<open>The envelope of a direct invocation\<close>

text \<open>Decoding what the encoder wrote: one group of four characters at a time.\<close>

lemma unat_byte_less: "unat (a :: byte) < 256"
  using unsigned_less [of a] by simp

lemma b64_value_char:
  assumes "n < 64"
  shows "b64_value (of_nat (of_char (b64_char n))) = Some n"
  using assms
  by (auto simp: b64_value_def b64_char_def Let_def unsigned_of_nat take_bit_nat_eq_self)

lemma b64_char_ascii:
  assumes "n < 64"
  shows "(of_char (b64_char n) :: nat) < 128" and "(of_char (b64_char n) :: nat) \<noteq> 61"
  using assms by (auto simp: b64_char_def Let_def)

lemma b64_char_not_pad:
  assumes "n < 64"
  shows "(of_nat (of_char (b64_char n)) :: byte) \<noteq> 61"
proof
  assume "(of_nat (of_char (b64_char n)) :: byte) = 61"
  then have "unat (of_nat (of_char (b64_char n)) :: byte) = unat (61 :: byte)"
    by simp
  moreover have "unat (of_nat (of_char (b64_char n)) :: byte) = of_char (b64_char n)"
    using b64_char_ascii(1) [OF assms] by (simp add: unsigned_of_nat take_bit_nat_eq_self)
  ultimately show False
    using b64_char_ascii(2) [OF assms] by simp
qed

lemma utf8_b64_char:
  assumes "n < 64"
  shows "utf8_char (b64_char n) = [of_nat (of_char (b64_char n))]"
  using b64_char_ascii(1) [OF assms] by (simp add: utf8_char_def)

lemma utf8_pad: "utf8_char (CHR ''='') = [61]"
  by (simp add: utf8_char_def)

lemma encode_Cons: "encode (c # cs) = utf8_char c @ encode cs"
  by (simp add: encode_def)

lemma encode_Nil: "encode [] = []"
  by (simp add: encode_def)

lemma a2b_valid:
  assumes "n < 64"
  shows "a2b_base64 (of_nat (of_char (b64_char n)) # rest) q lc p out =
     (if q = 0 then a2b_base64 rest 1 n 0 out
      else if q = 1 then a2b_base64 rest 2 (n mod 16) 0 (out @ [of_nat (lc * 4 + n div 16)])
      else if q = 2 then a2b_base64 rest 3 (n mod 4) 0 (out @ [of_nat (lc * 16 + n div 4)])
      else a2b_base64 rest 0 0 0 (out @ [of_nat (lc * 64 + n)]))"
  using b64_value_char [OF assms] b64_char_not_pad [OF assms]
  by (simp add: a2b_base64.simps del: of_nat_add of_nat_mult)

lemma a2b_pad:
  "a2b_base64 (61 # rest) q lc p out =
     (if 2 \<le> q then (if 4 \<le> q + (p + 1) then Inr out else a2b_base64 rest q lc (p + 1) out)
      else a2b_base64 rest q lc p out)"
  by (simp add: a2b_base64.simps)

lemma regroup1:
  fixes a b :: nat
  assumes "b < 256"
  shows "a div 4 * 4 + (a mod 4 * 16 + b div 16) div 16 = a"
proof -
  have "b div 16 < 16" using assms by simp
  then have "(a mod 4 * 16 + b div 16) div 16 = a mod 4" by simp
  then show ?thesis by simp
qed

lemma regroup2:
  fixes a b c :: nat
  assumes "b < 256" "c < 256"
  shows "(a mod 4 * 16 + b div 16) mod 16 * 16 + (b mod 16 * 4 + c div 64) div 4 = b"
proof -
  have "b div 16 < 16" using assms by simp
  then have 1: "(a mod 4 * 16 + b div 16) mod 16 = b div 16" by simp
  have "c div 64 < 4" using assms by simp
  then have 2: "(b mod 16 * 4 + c div 64) div 4 = b mod 16" by simp
  show ?thesis unfolding 1 2 by simp
qed

lemma regroup3:
  fixes b c :: nat
  assumes "c < 256"
  shows "(b mod 16 * 4 + c div 64) mod 4 * 64 + c mod 64 = c"
proof -
  have "c div 64 < 4" using assms by simp
  then have "(b mod 16 * 4 + c div 64) mod 4 = c div 64" by simp
  then show ?thesis by simp
qed

lemma regroup4:
  fixes a b :: nat
  assumes "b < 256"
  shows "(a mod 4 * 16 + b div 16) mod 16 * 16 + (b mod 16 * 4) div 4 = b"
proof -
  have "b div 16 < 16" using assms by simp
  then have 1: "(a mod 4 * 16 + b div 16) mod 16 = b div 16" by simp
  show ?thesis unfolding 1 by simp
qed

lemma regroup5:
  fixes a :: nat
  shows "a div 4 * 4 + (a mod 4 * 16) div 16 = a"
  by simp

lemma sextet_bounds:
  fixes a b c :: nat
  assumes "b < 256" "c < 256"
  shows "a mod 4 * 16 + b div 16 < 64" and "b mod 16 * 4 + c div 64 < 64"
proof -
  have "b div 16 < 16" "c div 64 < 4" "a mod 4 < 4" "b mod 16 < 16" using assms by simp_all
  then show "a mod 4 * 16 + b div 16 < 64" and "b mod 16 * 4 + c div 64 < 64" by linarith+
qed

lemma a2b_group:
  assumes "n0 < 64" "n1 < 64" "n2 < 64" "n3 < 64"
  shows "a2b_base64 (of_nat (of_char (b64_char n0)) # of_nat (of_char (b64_char n1)) #
                     of_nat (of_char (b64_char n2)) # of_nat (of_char (b64_char n3)) # rest) 0 lc p out =
         a2b_base64 rest 0 0 0
           (out @ [of_nat (n0 * 4 + n1 div 16), of_nat (n1 mod 16 * 16 + n2 div 4),
                   of_nat (n2 mod 4 * 64 + n3)])"
  by (simp add: a2b_valid assms del: of_nat_add of_nat_mult)

lemma a2b_group_pad1:
  assumes "n0 < 64" "n1 < 64" "n2 < 64"
  shows "a2b_base64 [of_nat (of_char (b64_char n0)), of_nat (of_char (b64_char n1)),
                     of_nat (of_char (b64_char n2)), 61] 0 lc p out =
         Inr (out @ [of_nat (n0 * 4 + n1 div 16), of_nat (n1 mod 16 * 16 + n2 div 4)])"
  by (simp add: a2b_valid a2b_pad assms del: of_nat_add of_nat_mult)

lemma a2b_group_pad2:
  assumes "n0 < 64" "n1 < 64"
  shows "a2b_base64 [of_nat (of_char (b64_char n0)), of_nat (of_char (b64_char n1)), 61, 61]
           0 lc p out =
         Inr (out @ [of_nat (n0 * 4 + n1 div 16)])"
  by (simp add: a2b_valid a2b_pad assms del: of_nat_add of_nat_mult)

lemma a2b_three:
  fixes a b c :: byte
  shows "a2b_base64 (encode (b64encode (a # b # c # bs))) 0 lc p out =
         a2b_base64 (encode (b64encode bs)) 0 0 0 (out @ [a, b, c])"
proof -
  let ?a = "unat a" and ?b = "unat b" and ?c = "unat c"
  have bounds: "?a < 256" "?b < 256" "?c < 256" by (rule unat_byte_less)+
  have n0: "?a div 4 < 64" using bounds by simp
  have n1: "?a mod 4 * 16 + ?b div 16 < 64" using bounds by (intro sextet_bounds)
  have n2: "?b mod 16 * 4 + ?c div 64 < 64" using bounds by (intro sextet_bounds)
  have n3: "?c mod 64 < 64" by simp
  have enc: "encode (b64encode (a # b # c # bs)) =
      of_nat (of_char (b64_char (?a div 4))) #
      of_nat (of_char (b64_char (?a mod 4 * 16 + ?b div 16))) #
      of_nat (of_char (b64_char (?b mod 16 * 4 + ?c div 64))) #
      of_nat (of_char (b64_char (?c mod 64))) # encode (b64encode bs)"
    by (simp only: b64encode.simps encode_Cons utf8_b64_char [OF n0] utf8_b64_char [OF n1]
          utf8_b64_char [OF n2] utf8_b64_char [OF n3] append.simps)
  show ?thesis
    unfolding enc a2b_group [OF n0 n1 n2 n3] regroup1 [OF bounds(2)]
      regroup2 [OF bounds(2) bounds(3)] regroup3 [OF bounds(3)]
    by simp
qed

lemma a2b_two:
  fixes a b :: byte
  shows "a2b_base64 (encode (b64encode [a, b])) 0 lc p out = Inr (out @ [a, b])"
proof -
  let ?a = "unat a" and ?b = "unat b"
  have bounds: "?a < 256" "?b < 256" by (rule unat_byte_less)+
  have n0: "?a div 4 < 64" using bounds by simp
  have n1: "?a mod 4 * 16 + ?b div 16 < 64" using bounds by (intro sextet_bounds)
  have n2: "?b mod 16 * 4 < 64" by simp
  have enc: "encode (b64encode [a, b]) =
      [of_nat (of_char (b64_char (?a div 4))),
       of_nat (of_char (b64_char (?a mod 4 * 16 + ?b div 16))),
       of_nat (of_char (b64_char (?b mod 16 * 4))), 61]"
    by (simp only: b64encode.simps encode_Cons encode_Nil utf8_b64_char [OF n0]
          utf8_b64_char [OF n1] utf8_b64_char [OF n2] utf8_pad append.simps)
  show ?thesis
    unfolding enc a2b_group_pad1 [OF n0 n1 n2] regroup1 [OF bounds(2)] regroup4 [OF bounds(2)]
    by simp
qed

lemma a2b_one:
  fixes a :: byte
  shows "a2b_base64 (encode (b64encode [a])) 0 lc p out = Inr (out @ [a])"
proof -
  let ?a = "unat a"
  have bounds: "?a < 256" by (rule unat_byte_less)
  have n0: "?a div 4 < 64" using bounds by simp
  have n1: "?a mod 4 * 16 < 64" by simp
  have enc: "encode (b64encode [a]) =
      [of_nat (of_char (b64_char (?a div 4))), of_nat (of_char (b64_char (?a mod 4 * 16))), 61, 61]"
    by (simp only: b64encode.simps encode_Cons encode_Nil utf8_b64_char [OF n0]
          utf8_b64_char [OF n1] utf8_pad append.simps)
  show ?thesis
    unfolding enc a2b_group_pad2 [OF n0 n1] regroup5
    by simp
qed

lemma a2b_encode: "a2b_base64 (encode (b64encode bs)) 0 lc p out = Inr (out @ bs)"
proof (induction bs arbitrary: lc p out rule: b64encode.induct)
  case (1 a b c rest)
  show ?case unfolding a2b_three by (simp add: "1.IH")
next
  case (2 a b)
  show ?case by (rule a2b_two)
next
  case (3 a)
  show ?case by (rule a2b_one)
next
  case 4
  show ?case by (simp add: encode_Nil a2b_base64.simps)
qed

lemma b64_roundtrip: "b64decode (encode (b64encode bs)) = Inr bs"
  by (simp add: b64decode_def a2b_encode)

lemma Response_body_status:
  assumes "Response_body ext response = (x, r)"
  shows "resp_status_code r = resp_status_code response"
  using assms
  by (auto simp: Response_body_def Let_def split: if_splits sum.splits option.splits)

text \<open>
  C8. When the body of the response renders, \<^verbatim>\<open>serialize_response\<close> returns the dict
  with the keys \<^verbatim>\<open>body\<close>, \<^verbatim>\<open>statusCode\<close> (the status as a decimal string), \<^verbatim>\<open>headers\<close> and
  \<^verbatim>\<open>isBase64Encoded\<close>. The flag is true exactly when the rendered body is binary; then
  the body of the envelope is the Base64 text of the bytes, and decoding that text gives
  the bytes back. Any other body is passed as it is, with the flag false.
\<close>

theorem direct_envelope:
  assumes "Response_body ext response = (Inr body, r)"
  shows "\<exists>env_body flag.
           serialize_response ext response request =
             Inr (PDict [(''body'', env_body),
                         (''statusCode'', PStr (str_int (resp_status_code response))),
                         (''headers'', PDict (resp_headers r)),
                         (''isBase64Encoded'', PBool flag)]) \<and>
           (flag \<longleftrightarrow> (\<exists>bs. body = PBytes bs)) \<and>
           (\<forall>bs. body = PBytes bs \<longrightarrow>
              env_body = PStr (b64encode bs) \<and> b64decode (encode (b64encode bs)) = Inr bs) \<and>
           ((\<forall>bs. body \<noteq> PBytes bs) \<longrightarrow> env_body = body)"
proof (cases "\<exists>bs. body = PBytes bs")
  case True
  then obtain bs where b: "body = PBytes bs" by blast
  have "serialize_response ext response request =
          Inr (PDict [(''body'', PStr (b64encode bs)),
                      (''statusCode'', PStr (str_int (resp_status_code response))),
                      (''headers'', PDict (resp_headers r)),
                      (''isBase64Encoded'', PBool True)])"
    using assms b Response_body_status [OF assms] by (simp add: serialize_response_def)
  with b b64_roundtrip show ?thesis by auto
next
  case False
  then have "(case body of PBytes bs \<Rightarrow> (PStr (b64encode bs), True) | _ \<Rightarrow> (body, False)) =
               (body, False)"
    by (cases body) auto
  then have "serialize_response ext response request =
          Inr (PDict [(''body'', body),
                      (''statusCode'', PStr (str_int (resp_status_code response))),
                      (''headers'', PDict (resp_headers r)),
                      (''isBase64Encoded'', PBool False)])"
    using assms Response_body_status [OF assms] by (simp add: serialize_response_def)
  with False show ?thesis by auto
qed

text \<open>
  The binary response of the tests, \<^verbatim>\<open>Response(b"test", media_type="application/octet-stream")\<close>,
  and the response \<^verbatim>\<open>"get"\<close> of a JSON route.
\<close>

theorem direct_envelope_witness:
  "serialize_response fixture_lib
     (fst (Response_init False (PBytes [116, 101, 115, 116]) 200 None
             (Some ''application/octet-stream'') (create_event PNone PNone PNone PNone)))
     (fixture_direct ''/'' ''POST'' PNone) =
   Inr (PDict [(''body'', PStr ''dGVzdA==''),
               (''statusCode'', PStr ''200''),
               (''headers'', PDict [(''x-request-id'', PNone), (''content-length'', PStr ''4''),
                                    (''content-type'', PStr ''application/octet-stream'')]),
               (''isBase64Encoded'', PBool True)]) \<and>
   b64decode (encode ''dGVzdA=='') = Inr [116, 101, 115, 116] \<and>
   serialize_response fixture_lib (fixture_response (PStr ''get'') 200)
     (fixture_direct ''/'' ''GET'' PNone) =
   Inr (PDict [(''body'', PStr [CHR 0x22, CHR ''g'', CHR ''e'', CHR ''t'', CHR 0x22]),
               (''statusCode'', PStr ''200''),
               (''headers'', PDict [(''x-request-id'', PNone), (''content-length'', PStr ''5''),
                                    (''content-type'', PStr ''application/json'')]),
               (''isBase64Encoded'', PBool False)])"
proof -
  let ?ev = "create_event PNone PNone PNone PNone"
  let ?bin = "fst (Response_init False (PBytes [116, 101, 115, 116]) 200 None
             (Some ''application/octet-stream'') ?ev)"
  let ?text = "fixture_response (PStr ''get'') 200"
  have s4: "str_int 4 = ''4''" and s5: "str_int 5 = ''5''" and s200: "str_int 200 = ''200''"
    by code_simp+
  have enc: "b64encode [116, 101, 115, 116] = ''dGVzdA==''"
    by code_simp
  have bin: "Response_body fixture_lib ?bin =
      (Inr (PBytes [116, 101, 115, 116]),
       ?bin\<lparr>resp_headers := [(''x-request-id'', PNone), (''content-length'', PStr ''4''),
                                (''content-type'', PStr ''application/octet-stream'')]\<rparr>)"
    by (simp add: Response_body_def Response_init_def set_status_code_def create_event_def
        render_def Let_def s4)
  have bst: "resp_status_code ?bin = 200"
    by (simp add: Response_init_def set_status_code_def Let_def)
  have tbody: "Response_body fixture_lib ?text =
      (Inr (PStr [CHR 0x22, CHR ''g'', CHR ''e'', CHR ''t'', CHR 0x22]),
       ?text\<lparr>resp_headers := [(''x-request-id'', PNone), (''content-length'', PStr ''5''),
                                (''content-type'', PStr ''application/json'')]\<rparr>)"
    by (simp add: Response_body_def fixture_response_def JSONResponse_eq create_event_def
        render_def fixture_lib_def fixture_quote_def Let_def s5)
  have tst: "resp_status_code ?text = 200"
    by (simp add: fixture_response_def JSONResponse_eq)
  from direct_envelope [OF bin, of "fixture_direct ''/'' ''POST'' PNone"]
  obtain eb fl where
    e: "serialize_response fixture_lib ?bin (fixture_direct ''/'' ''POST'' PNone) =
          Inr (PDict [(''body'', eb),
                      (''statusCode'', PStr (str_int (resp_status_code ?bin))),
                      (''headers'', PDict [(''x-request-id'', PNone),
                                           (''content-length'', PStr ''4''),
                                           (''content-type'', PStr ''application/octet-stream'')]),
                      (''isBase64Encoded'', PBool fl)])"
    and f: "fl \<longleftrightarrow> (\<exists>bs. PBytes [116, 101, 115, 116] = PBytes bs)"
    and g: "\<forall>bs. PBytes [116, 101, 115, 116] = PBytes bs \<longrightarrow>
              eb = PStr (b64encode bs) \<and> b64decode (encode (b64encode bs)) = Inr bs"
    by auto
  from f have fl: "fl" by blast
  from g have "eb = PStr (b64encode [116, 101, 115, 116])"
    and "b64decode (encode (b64encode [116, 101, 115, 116])) = Inr [116, 101, 115, 116]"
    by blast+
  then have eb: "eb = PStr ''dGVzdA==''"
    and 2: "b64decode (encode ''dGVzdA=='') = Inr [116, 101, 115, 116]"
    unfolding enc by blast+
  have 1: "serialize_response fixture_lib ?bin (fixture_direct ''/'' ''POST'' PNone) =
     Inr (PDict [(''body'', PStr ''dGVzdA==''),
               (''statusCode'', PStr ''200''),
               (''headers'', PDict [(''x-request-id'', PNone), (''content-length'', PStr ''4''),
                                    (''content-type'', PStr ''application/octet-stream'')]),
               (''isBase64Encoded'', PBool True)])"
    unfolding e bst s200 eb using fl by simp
  from direct_envelope [OF tbody, of "fixture_direct ''/'' ''GET'' PNone"]
  have 3: "serialize_response fixture_lib ?text (fixture_direct ''/'' ''GET'' PNone) =
   Inr (PDict [(''body'', PStr [CHR 0x22, CHR ''g'', CHR ''e'', CHR ''t'', CHR 0x22]),
               (''statusCode'', PStr ''200''),
               (''headers'', PDict [(''x-request-id'', PNone), (''content-length'', PStr ''5''),
                                    (''content-type'', PStr ''application/json'')]),
               (''isBase64Encoded'', PBool False)])"
    by (auto simp: tst s200)
  from 1 2 3 show ?thesis by blast
qed

section \<open>Requests of a batch\<close>

lemma and_then_Inr: "and_then m f = Inr y \<longleftrightarrow> (\<exists>x. m = Inr x \<and> f x = Inr y)"
  by (cases m) auto

lemma getitem_Inr: "getitem v k = Inr x \<longleftrightarrow> (\<exists>d. v = PDict d \<and> map_of d k = Some x)"
  by (cases v) (auto split: option.splits)

lemma setitem_Inr: "setitem v k x = Inr w \<longleftrightarrow> (\<exists>d. v = PDict d \<and> w = PDict (AList.update k x d))"
  by (cases v) auto

lemma pop_Inr:
  "pop v k = Inr (x, w) \<longleftrightarrow> (\<exists>d. v = PDict d \<and> map_of d k = Some x \<and> w = PDict (AList.delete k d))"
  by (cases v) (auto split: option.splits)

lemma aws_Request_init_fields:
  assumes "aws_Request_init d context raises = Inr r"
  shows "req_raises_exceptions r = raises"
    and "k \<noteq> ''headers'' \<Longrightarrow> map_of (req_event r) k = map_of d k"
proof -
  let ?h = "dict_get d ''headers'' PNone"
  from assms obtain rc m p where
    body: "(case (if truthy ?h then ?h else PDict []) of
              PDict hdrs \<Rightarrow>
                and_then
                  (case getitem rc ''requestId'' of
                     Inl KeyError \<Rightarrow> Inr hdrs
                   | Inl e \<Rightarrow> Inl e
                   | Inr rid \<Rightarrow> Inr (setdefault hdrs ''x-request-id'' rid))
                  (\<lambda>hdrs'.
                     Inr ((Request_init p m (Some hdrs') PNone raises)
                            \<lparr>req_aws := True,
                             req_event :=
                               (if truthy ?h then AList.update ''headers'' (PDict hdrs') d else d),
                             req_context := context\<rparr>))
            | _ \<Rightarrow> Inl AttributeError) = Inr r"
    by (auto simp: aws_Request_init_def and_then_Inr Let_def)
  then obtain hdrs where X: "(if truthy ?h then ?h else PDict []) = PDict hdrs"
    by (cases "if truthy ?h then ?h else PDict []") auto
  from body obtain hdrs' where
    r: "r = (Request_init p m (Some hdrs') PNone raises)
              \<lparr>req_aws := True,
               req_event := (if truthy ?h then AList.update ''headers'' (PDict hdrs') d else d),
               req_context := context\<rparr>"
    unfolding X by (auto simp: and_then_Inr)
  from r show "req_raises_exceptions r = raises"
    by (simp add: Request_init_def)
  from r show "k \<noteq> ''headers'' \<Longrightarrow> map_of (req_event r) k = map_of d k"
    by (auto simp: update_conv')
qed

lemma record_request_fields:
  assumes "record_request context re = Inr r"
  shows "\<exists>d. re = PDict d \<and>
             req_raises_exceptions r = dict_get d ''eventRaisesExceptions'' (PBool True) \<and>
             map_of (req_event r) ''eventSource'' = map_of d ''eventSource''"
proof -
  from assms obtain d where d: "re = PDict d"
    by (cases re) (auto simp: record_request_def)
  with assms have
    i: "aws_Request_init d context (dict_get d ''eventRaisesExceptions'' (PBool True)) = Inr r"
    by (simp add: record_request_def)
  from aws_Request_init_fields(1) [OF i] aws_Request_init_fields(2) [OF i, of "''eventSource''"] d
  show ?thesis by simp
qed

lemma comprehension_set:
  assumes "comprehension ctx gen = Inr rs" and "r \<in> set rs"
  shows "\<exists>re. Inr re \<in> set gen \<and> record_request ctx re = Inr r"
  using assms
proof (induction ctx gen arbitrary: rs rule: comprehension.induct)
  case (1 ctx)
  then show ?case by simp
next
  case (2 ctx e rest)
  then show ?case by simp
next
  case (3 ctx record_event rest)
  from "3.prems"(1) obtain request requests where
    a: "record_request ctx record_event = Inr request"
    and b: "comprehension ctx rest = Inr requests"
    and c: "rs = request # requests"
    by (auto simp: and_then_Inr)
  show ?case
  proof (cases "r = request")
    case True
    with a show ?thesis by auto
  next
    case False
    with c "3.prems"(2) have "r \<in> set requests" by simp
    from "3.IH" [OF b this] show ?thesis by auto
  qed
qed

lemma parse_record_sqs_fields:
  assumes "parse_record_sqs ext record = Inr re"
  shows "\<exists>d. re = PDict d \<and> map_of d ''eventRaisesExceptions'' = Some (PBool False) \<and>
             map_of d ''eventSource'' = Some (PStr ''aws:sqs'')"
  using assms
  by (auto simp: parse_record_sqs_def and_then_Inr setitem_Inr update_conv' split: prod.splits)

lemma parse_record_sns_fields:
  assumes "parse_record_sns ext record = Inr re"
  shows "\<exists>sns message payload.
           getitem record ''Sns'' = Inr sns \<and> getitem sns ''Message'' = Inr message \<and>
           loads ext message = Inr (PDict payload) \<and>
           re = PDict (AList.update ''eventData''
                         (PDict (AList.update ''Sns''
                                   (PDict (AList.delete ''Message'' (case sns of PDict s \<Rightarrow> s | _ \<Rightarrow> [])))
                                   (case record of PDict d \<Rightarrow> d | _ \<Rightarrow> [])))
                         (AList.update ''eventSource'' (PStr ''aws:sns'') payload))"
  using assms
  by (auto simp: parse_record_sns_def and_then_Inr setitem_Inr pop_Inr getitem_Inr split: prod.splits)

lemma parse_record_mq_fields:
  assumes "parse_record_mq ext record = Inr re"
  shows "\<exists>datum payload.
           getitem record ''data'' = Inr datum \<and> loads ext datum = Inr (PDict payload) \<and>
           re = PDict (AList.update ''eventData''
                         (PDict (AList.delete ''data'' (case record of PDict d \<Rightarrow> d | _ \<Rightarrow> [])))
                         (AList.update ''eventSource'' (PStr ''aws:mq'') payload))"
  using assms
  by (auto simp: parse_record_mq_def and_then_Inr setitem_Inr pop_Inr getitem_Inr split: prod.splits)

lemma parse_request_Single:
  assumes "parse_request ext event ctx = Inr (Single r)"
  shows "aws_Request_init event ctx (PBool True) = Inr r"
  using assms
  by (auto simp: parse_request_def and_then_Inr split: if_splits option.splits)

lemma parse_request_Batch:
  assumes "parse_request ext event ctx = Inr (Batch rs)"
    and "event_source_of event = Inr (Some src)"
  shows "map_of event ''requestContext'' = None \<and>
         (\<exists>suffix parser gen.
            source_suffix src = Inr suffix \<and> getattr_parse_event suffix = Inr parser \<and>
            parser ext event = Inr gen \<and> comprehension ctx gen = Inr rs)"
  using assms
  by (auto simp: parse_request_def and_then_Inr split: if_splits option.splits)

lemma getattr_parse_event_cases:
  "getattr_parse_event ''sqs'' = Inr parse_event_sqs"
  "getattr_parse_event ''sns'' = Inr parse_event_sns"
  "getattr_parse_event ''mq'' = Inr parse_event_mq"
  by (simp_all add: getattr_parse_event_def)

lemma comprehension_all2:
  assumes "comprehension ctx (map f records) = Inr rs"
  shows "list_all2 (\<lambda>rcd r. \<exists>re. f rcd = Inr re \<and> record_request ctx re = Inr r) records rs"
  using assms
proof (induction records arbitrary: rs)
  case Nil
  then show ?case by simp
next
  case (Cons rcd records)
  show ?case
  proof (cases "f rcd")
    case (Inl e)
    with Cons.prems show ?thesis by simp
  next
    case (Inr re)
    with Cons.prems obtain request requests where
      a: "record_request ctx re = Inr request"
      and b: "comprehension ctx (map f records) = Inr requests"
      and c: "rs = request # requests"
      by (auto simp: and_then_Inr)
    from Cons.IH [OF b] a c Inr show ?thesis by simp
  qed
qed

lemma record_sns_flag:
  assumes "parse_record_sns ext rcd = Inr re" and "record_request ctx re = Inr r"
  shows "\<exists>sns message payload.
           getitem rcd ''Sns'' = Inr sns \<and> getitem sns ''Message'' = Inr message \<and>
           loads ext message = Inr (PDict payload) \<and>
           req_raises_exceptions r = dict_get payload ''eventRaisesExceptions'' (PBool True)"
proof -
  from record_request_fields [OF assms(2)] obtain d where
    d: "re = PDict d"
       "req_raises_exceptions r = dict_get d ''eventRaisesExceptions'' (PBool True)" by blast
  from parse_record_sns_fields [OF assms(1)] obtain sns message payload where
    f: "getitem rcd ''Sns'' = Inr sns" "getitem sns ''Message'' = Inr message"
      "loads ext message = Inr (PDict payload)"
      "map_of d ''eventRaisesExceptions'' = map_of payload ''eventRaisesExceptions''"
    using d(1) by (auto simp: update_conv')
  from f(4) d(2) have "req_raises_exceptions r =
      dict_get payload ''eventRaisesExceptions'' (PBool True)"
    by (simp add: dict_get_def)
  with f(1-3) show ?thesis by blast
qed

lemma record_mq_flag:
  assumes "parse_record_mq ext rcd = Inr re" and "record_request ctx re = Inr r"
  shows "\<exists>datum payload.
           getitem rcd ''data'' = Inr datum \<and> loads ext datum = Inr (PDict payload) \<and>
           req_raises_exceptions r = dict_get payload ''eventRaisesExceptions'' (PBool True)"
proof -
  from record_request_fields [OF assms(2)] obtain d where
    d: "re = PDict d"
       "req_raises_exceptions r = dict_get d ''eventRaisesExceptions'' (PBool True)" by blast
  from parse_record_mq_fields [OF assms(1)] obtain datum payload where
    f: "getitem rcd ''data'' = Inr datum" "loads ext datum = Inr (PDict payload)"
      "map_of d ''eventRaisesExceptions'' = map_of payload ''eventRaisesExceptions''"
    using d(1) by (auto simp: update_conv')
  from f(3) d(2) have "req_raises_exceptions r =
      dict_get payload ''eventRaisesExceptions'' (PBool True)"
    by (simp add: dict_get_def)
  with f(1,2) show ?thesis by blast
qed

text \<open>
  C4, as the code has it. A request of a direct invocation has \<^verbatim>\<open>raises_exceptions\<close>
  true, and every request of a queue batch has it false. For a topic or a broker batch the
  parser does not set the flag: the requests are, position by position, those of the
  records of the payload, and the flag of each is the value that the decoded payload of
  its record holds under \<^verbatim>\<open>eventRaisesExceptions\<close>, and true when that payload has no such
  key.
\<close>

theorem raises_exceptions_by_trigger:
  "(parse_request ext event ctx = Inr (Single r) \<longrightarrow> req_raises_exceptions r = PBool True) \<and>
   (parse_request ext event ctx = Inr (Batch rs) \<and> event_source_of event = Inr (Some src) \<longrightarrow>
      (source_suffix src = Inr ''sqs'' \<longrightarrow>
         (\<forall>r \<in> set rs. req_raises_exceptions r = PBool False)) \<and>
      (source_suffix src = Inr ''sns'' \<longrightarrow>
         (\<exists>records.
            and_then (getitem (PDict event) ''Records'') py_iter = Inr records \<and>
            list_all2
              (\<lambda>record r. \<exists>sns message payload.
                 getitem record ''Sns'' = Inr sns \<and> getitem sns ''Message'' = Inr message \<and>
                 loads ext message = Inr (PDict payload) \<and>
                 req_raises_exceptions r =
                   dict_get payload ''eventRaisesExceptions'' (PBool True))
              records rs)) \<and>
      (source_suffix src = Inr ''mq'' \<longrightarrow>
         (\<exists>records.
            and_then (getitem (PDict event) ''messages'') py_iter = Inr records \<and>
            list_all2
              (\<lambda>record r. \<exists>datum payload.
                 getitem record ''data'' = Inr datum \<and> loads ext datum = Inr (PDict payload) \<and>
                 req_raises_exceptions r =
                   dict_get payload ''eventRaisesExceptions'' (PBool True))
              records rs)))"
proof -
  have single: "req_raises_exceptions r = PBool True"
    if "parse_request ext event ctx = Inr (Single r)"
    using aws_Request_init_fields(1) [OF parse_request_Single [OF that]] .
  have batch: "\<exists>re d. Inr re \<in> set gen \<and> re = PDict d \<and>
                 req_raises_exceptions x = dict_get d ''eventRaisesExceptions'' (PBool True)"
    if "comprehension ctx gen = Inr rs" and "x \<in> set rs" for gen x
  proof -
    from comprehension_set [OF that] obtain re where
      re: "Inr re \<in> set gen" "record_request ctx re = Inr x" by blast
    from record_request_fields [OF re(2)] re(1) show ?thesis by blast
  qed
  have sqs: "req_raises_exceptions x = PBool False"
    if p: "parse_request ext event ctx = Inr (Batch rs)" "event_source_of event = Inr (Some src)"
      and s: "source_suffix src = Inr ''sqs''" and x: "x \<in> set rs" for x
  proof -
    from parse_request_Batch [OF p] s obtain gen where
      g: "parse_event_sqs ext event = Inr gen" "comprehension ctx gen = Inr rs"
      by (auto simp: getattr_parse_event_cases)
    from batch [OF g(2) x] obtain re d where
      re: "Inr re \<in> set gen" "re = PDict d"
        "req_raises_exceptions x = dict_get d ''eventRaisesExceptions'' (PBool True)" by blast
    from g(1) re(1) obtain rcd where "parse_record_sqs ext rcd = Inr re"
      by (auto simp: parse_event_sqs_def and_then_Inr)
    from parse_record_sqs_fields [OF this] re(2,3) show ?thesis
      by (auto simp: dict_get_def)
  qed
  have sns: "\<exists>records.
            and_then (getitem (PDict event) ''Records'') py_iter = Inr records \<and>
            list_all2
              (\<lambda>record r. \<exists>sns message payload.
                 getitem record ''Sns'' = Inr sns \<and> getitem sns ''Message'' = Inr message \<and>
                 loads ext message = Inr (PDict payload) \<and>
                 req_raises_exceptions r =
                   dict_get payload ''eventRaisesExceptions'' (PBool True))
              records rs"
    if p: "parse_request ext event ctx = Inr (Batch rs)" "event_source_of event = Inr (Some src)"
      and s: "source_suffix src = Inr ''sns''"
  proof -
    from parse_request_Batch [OF p] s obtain gen where
      g: "parse_event_sns ext event = Inr gen" "comprehension ctx gen = Inr rs"
      by (auto simp: getattr_parse_event_cases)
    from g(1) obtain records where
      i: "and_then (getitem (PDict event) ''Records'') py_iter = Inr records"
      and m: "gen = map (parse_record_sns ext) records"
      by (auto simp: parse_event_sns_def and_then_Inr)
    from comprehension_all2 [OF g(2) [unfolded m]]
    have "list_all2
              (\<lambda>record r. \<exists>sns message payload.
                 getitem record ''Sns'' = Inr sns \<and> getitem sns ''Message'' = Inr message \<and>
                 loads ext message = Inr (PDict payload) \<and>
                 req_raises_exceptions r =
                   dict_get payload ''eventRaisesExceptions'' (PBool True))
              records rs"
      by (rule list_all2_mono) (auto dest: record_sns_flag)
    with i show ?thesis by blast
  qed
  have mq: "\<exists>records.
            and_then (getitem (PDict event) ''messages'') py_iter = Inr records \<and>
            list_all2
              (\<lambda>record r. \<exists>datum payload.
                 getitem record ''data'' = Inr datum \<and> loads ext datum = Inr (PDict payload) \<and>
                 req_raises_exceptions r =
                   dict_get payload ''eventRaisesExceptions'' (PBool True))
              records rs"
    if p: "parse_request ext event ctx = Inr (Batch rs)" "event_source_of event = Inr (Some src)"
      and s: "source_suffix src = Inr ''mq''"
  proof -
    from parse_request_Batch [OF p] s obtain gen where
      g: "parse_event_mq ext event = Inr gen" "comprehension ctx gen = Inr rs"
      by (auto simp: getattr_parse_event_cases)
    from g(1) obtain records where
      i: "and_then (getitem (PDict event) ''messages'') py_iter = Inr records"
      and m: "gen = map (parse_record_mq ext) records"
      by (auto simp: parse_event_mq_def and_then_Inr)
    from comprehension_all2 [OF g(2) [unfolded m]]
    have "list_all2
              (\<lambda>record r. \<exists>datum payload.
                 getitem record ''data'' = Inr datum \<and> loads ext datum = Inr (PDict payload) \<and>
                 req_raises_exceptions r =
                   dict_get payload ''eventRaisesExceptions'' (PBool True))
              records rs"
      by (rule list_all2_mono) (auto dest: record_mq_flag)
    with i show ?thesis by blast
  qed
  from single sqs sns mq show ?thesis by blast
qed

text \<open>
  The direct event and the queue batch of four of the tests, and a topic batch and a broker
  batch of one record whose payload has no key \<^verbatim>\<open>eventRaisesExceptions\<close>.
\<close>

theorem raises_exceptions_by_trigger_witness:
  "parse_request fixture_lib (fixture_event ''/'' ''GET'' PNone) PNone =
     Inr (Single (fixture_direct ''/'' ''GET'' PNone)) \<and>
   req_raises_exceptions (fixture_direct ''/'' ''GET'' PNone) = PBool True \<and>
   parse_request fixture_lib fixture_sqs_event PNone =
     Inr (Batch (fixture_requests fixture_sqs_event)) \<and>
   event_source_of fixture_sqs_event = Inr (Some (PStr ''aws:sqs'')) \<and>
   source_suffix (PStr ''aws:sqs'') = Inr ''sqs'' \<and>
   length (fixture_requests fixture_sqs_event) = 4 \<and>
   list_all (\<lambda>r. req_raises_exceptions r = PBool False) (fixture_requests fixture_sqs_event) \<and>
   parse_request fixture_lib (fixture_sns_event ''req204'') PNone =
     Inr (Batch (fixture_requests (fixture_sns_event ''req204''))) \<and>
   event_source_of (fixture_sns_event ''req204'') = Inr (Some (PStr ''aws:sns'')) \<and>
   source_suffix (PStr ''aws:sns'') = Inr ''sns'' \<and>
   map req_raises_exceptions (fixture_requests (fixture_sns_event ''req204'')) = [PBool True] \<and>
   parse_request fixture_lib (fixture_mq_event ''req204'') PNone =
     Inr (Batch (fixture_requests (fixture_mq_event ''req204''))) \<and>
   event_source_of (fixture_mq_event ''req204'') = Inr (Some (PStr ''aws:mq'')) \<and>
   source_suffix (PStr ''aws:mq'') = Inr ''mq'' \<and>
   map req_raises_exceptions (fixture_requests (fixture_mq_event ''req204'')) = [PBool True]"
proof -
  have d: "parse_request fixture_lib (fixture_event ''/'' ''GET'' PNone) PNone =
     Inr (Single (fixture_direct ''/'' ''GET'' PNone))"
    by (rule parse_fixture_event)
  have p: "parse_request fixture_lib fixture_sqs_event PNone =
     Inr (Batch (fixture_requests fixture_sqs_event))"
    by code_simp
  have e: "event_source_of fixture_sqs_event = Inr (Some (PStr ''aws:sqs''))"
    by code_simp
  have s: "source_suffix (PStr ''aws:sqs'') = Inr ''sqs''"
    by simp
  have n: "length (fixture_requests fixture_sqs_event) = 4"
    by code_simp
  from raises_exceptions_by_trigger
    [of fixture_lib "fixture_event ''/'' ''GET'' PNone" PNone "fixture_direct ''/'' ''GET'' PNone"]
    d
  have 1: "req_raises_exceptions (fixture_direct ''/'' ''GET'' PNone) = PBool True"
    by blast
  from raises_exceptions_by_trigger
    [of fixture_lib fixture_sqs_event PNone _ "fixture_requests fixture_sqs_event" "PStr ''aws:sqs''"]
    p e s
  have "\<forall>r \<in> set (fixture_requests fixture_sqs_event). req_raises_exceptions r = PBool False"
    by blast
  then have 2: "list_all (\<lambda>r. req_raises_exceptions r = PBool False)
      (fixture_requests fixture_sqs_event)"
    by (simp add: list_all_iff)
  have absent: "dict_get (fixture_event ''/'' ''GET'' (PStr ''{}'')) ''eventRaisesExceptions''
      (PBool True) = PBool True"
    by (simp add: dict_get_def fixture_event_def)
  have l: "loads fixture_lib (PStr ''req204'') = Inr (PDict (fixture_event ''/'' ''GET'' (PStr ''{}'')))"
    by (simp add: fixture_lib_def fixture_loads_def)
  have tp: "parse_request fixture_lib (fixture_sns_event ''req204'') PNone =
     Inr (Batch (fixture_requests (fixture_sns_event ''req204'')))"
    by code_simp
  have te: "event_source_of (fixture_sns_event ''req204'') = Inr (Some (PStr ''aws:sns''))"
    by code_simp
  have ts: "source_suffix (PStr ''aws:sns'') = Inr ''sns''"
    by simp
  from raises_exceptions_by_trigger
    [of fixture_lib "fixture_sns_event ''req204''" PNone _
      "fixture_requests (fixture_sns_event ''req204'')" "PStr ''aws:sns''"]
    tp te ts
  obtain records where
    ti: "and_then (getitem (PDict (fixture_sns_event ''req204'')) ''Records'') py_iter = Inr records"
    and tl: "list_all2
              (\<lambda>record r. \<exists>sns message payload.
                 getitem record ''Sns'' = Inr sns \<and> getitem sns ''Message'' = Inr message \<and>
                 loads fixture_lib message = Inr (PDict payload) \<and>
                 req_raises_exceptions r =
                   dict_get payload ''eventRaisesExceptions'' (PBool True))
              records (fixture_requests (fixture_sns_event ''req204''))"
    by blast
  from ti have tr: "records =
      [PDict [(''messageId'', PStr ''1''), (''Sns'', PDict [(''Message'', PStr ''req204'')]),
              (''eventSource'', PStr ''aws:sns'')]]"
    by (simp add: fixture_sns_event_def)
  from tl [unfolded tr] obtain r where
    t1: "fixture_requests (fixture_sns_event ''req204'') = [r]"
    and t2: "\<exists>payload. loads fixture_lib (PStr ''req204'') = Inr (PDict payload) \<and>
                 req_raises_exceptions r =
                   dict_get payload ''eventRaisesExceptions'' (PBool True)"
    by (auto simp: list_all2_Cons1)
  from t2 l absent have "req_raises_exceptions r = PBool True" by auto
  with t1 have 3: "map req_raises_exceptions (fixture_requests (fixture_sns_event ''req204'')) =
      [PBool True]"
    by simp
  have bp: "parse_request fixture_lib (fixture_mq_event ''req204'') PNone =
     Inr (Batch (fixture_requests (fixture_mq_event ''req204'')))"
    by code_simp
  have be: "event_source_of (fixture_mq_event ''req204'') = Inr (Some (PStr ''aws:mq''))"
    by code_simp
  have bs: "source_suffix (PStr ''aws:mq'') = Inr ''mq''"
    by simp
  from raises_exceptions_by_trigger
    [of fixture_lib "fixture_mq_event ''req204''" PNone _
      "fixture_requests (fixture_mq_event ''req204'')" "PStr ''aws:mq''"]
    bp be bs
  obtain messages where
    bi: "and_then (getitem (PDict (fixture_mq_event ''req204'')) ''messages'') py_iter =
           Inr messages"
    and bl: "list_all2
              (\<lambda>record r. \<exists>datum payload.
                 getitem record ''data'' = Inr datum \<and> loads fixture_lib datum = Inr (PDict payload) \<and>
                 req_raises_exceptions r =
                   dict_get payload ''eventRaisesExceptions'' (PBool True))
              messages (fixture_requests (fixture_mq_event ''req204''))"
    by blast
  from bi have br: "messages = [PDict [(''messageId'', PStr ''1''), (''data'', PStr ''req204'')]]"
    by (simp add: fixture_mq_event_def)
  from bl [unfolded br] obtain q where
    b1: "fixture_requests (fixture_mq_event ''req204'') = [q]"
    and b2: "\<exists>payload. loads fixture_lib (PStr ''req204'') = Inr (PDict payload) \<and>
                 req_raises_exceptions q =
                   dict_get payload ''eventRaisesExceptions'' (PBool True)"
    by (auto simp: list_all2_Cons1)
  from b2 l absent have "req_raises_exceptions q = PBool True" by auto
  with b1 have 4: "map req_raises_exceptions (fixture_requests (fixture_mq_event ''req204'')) =
      [PBool True]"
    by simp
  from d 1 p e s n 2 tp te ts 3 bp be bs 4 show ?thesis by blast
qed

text \<open>
  The claim as the specification states it fails on a topic batch and on a broker batch:
  the one request of each has \<^verbatim>\<open>raises_exceptions\<close> true.
\<close>

theorem raises_exceptions_topic_counterexample:
  "map_sum id raises_flags (parse_request fixture_lib (fixture_sns_event ''req204'') PNone) =
     Inr [PBool True] \<and>
   map_sum id raises_flags (parse_request fixture_lib (fixture_mq_event ''req204'') PNone) =
     Inr [PBool True]"
  by code_simp

section \<open>The request of an attempt\<close>

text \<open>Handling a request fills its two caches and changes nothing else of it.\<close>

lemma Request_body_same:
  assumes "Request_body r = (x, r')"
  shows "r' = r\<lparr>req_body := req_body r'\<rparr>"
  using assms
  by (auto simp: Request_body_def base_Request_body_def aws_Request_body_def Let_def
      split: if_splits option.splits sum.splits)

lemma Request_json_same:
  assumes "Request_json ext r = (x, r')"
  shows "r' = r\<lparr>req_body := req_body r', req_json := req_json r'\<rparr>"
proof (cases "req_json r")
  case (Some j)
  with assms show ?thesis by (simp add: Request_json_def)
next
  case None
  obtain y r1 where b: "Request_body r = (y, r1)" by (cases "Request_body r")
  have r1: "r1 = r\<lparr>req_body := req_body r1\<rparr>"
    by (rule Request_body_same [OF b])
  from assms None b have "r' = r1 \<or> (\<exists>j. r' = r1\<lparr>req_json := Some j\<rparr>)"
    by (auto simp: Request_json_def split: sum.splits if_splits exn.splits)
  then show ?thesis
  proof
    assume "r' = r1"
    with r1 show ?thesis by (cases r; cases r1) auto
  next
    assume "\<exists>j. r' = r1\<lparr>req_json := Some j\<rparr>"
    with r1 show ?thesis by (cases r; cases r1) auto
  qed
qed

lemma prepare_request_same:
  assumes "prepare_request ext rts r ev = (x, r', ev')"
  shows "r' = r\<lparr>req_body := req_body r', req_json := req_json r'\<rparr>"
proof (cases "lookup_route rts r")
  case (Inl e)
  with assms have "r' = r"
    by (simp add: prepare_request_def)
  then show ?thesis by simp
next
  case (Inr route)
  obtain y r1 where j: "Request_json ext r = (y, r1)" by (cases "Request_json ext r")
  from assms Inr j have "r' = r1"
    by (auto simp: prepare_request_def Let_def split: sum.splits prod.splits)
  with Request_json_same [OF j] show ?thesis by simp
qed

lemma route_request_same:
  assumes "route_request ext rts r ev = (x, r', ev')"
  shows "r' = r\<lparr>req_body := req_body r', req_json := req_json r'\<rparr>"
proof -
  obtain y r1 ev1 where p: "prepare_request ext rts r ev = (y, r1, ev1)"
    by (cases "prepare_request ext rts r ev")
  from assms p have "r' = r1"
    by (auto simp: route_request_def Let_def split: sum.splits prod.splits)
  with prepare_request_same [OF p] show ?thesis by simp
qed

lemma handle_request_same:
  assumes "handle_request ext rts r = (x, r', ev')"
  shows "r' = r\<lparr>req_body := req_body r', req_json := req_json r'\<rparr>"
proof -
  let ?ev = "create_event (req_method r) (req_path r)
                    (dict_get (req_headers r) ''x-request-id'' PNone)
                    (dict_get (req_headers r) ''user-agent'' PNone)"
  obtain y r1 ev1 where p: "route_request ext rts r ?ev = (y, r1, ev1)"
    by (cases "route_request ext rts r ?ev")
  from assms p have "r' = r1"
    by (auto simp: handle_request_def Let_def split: sum.splits prod.splits exn.splits if_splits)
  with route_request_same [OF p] show ?thesis by simp
qed

lemma handle_request_event:
  assumes "handle_request ext rts r = (x, r', ev')"
  shows "req_event r' = req_event r" and "req_raises_exceptions r' = req_raises_exceptions r"
proof -
  from handle_request_same [OF assms] have eq: "r' = r\<lparr>req_body := req_body r', req_json := req_json r'\<rparr>" .
  show "req_event r' = req_event r" by (subst eq) simp
  show "req_raises_exceptions r' = req_raises_exceptions r" by (subst eq) simp
qed

section \<open>Batches without acknowledgment\<close>

lemma those_length: "those xs = Some ys \<Longrightarrow> length ys = length xs"
  by (induction xs arbitrary: ys) (auto split: option.splits)

lemma gather_run_length:
  "gather_run sched outs slots = Some (Inr vs) \<Longrightarrow> length vs = length slots"
proof (induction sched arbitrary: slots)
  case Nil
  then show ?case by (auto dest: those_length)
next
  case (Cons i sched)
  then show ?case by (auto split: if_splits sum.splits)
qed

lemma gather_length: "gather sched outs = Some (Inr vs) \<Longrightarrow> length vs = length outs"
  unfolding gather_def by (drule gather_run_length) simp

lemma dispatch_Inr:
  assumes "dispatch ext rts sched requests = Some (Inr pairs)"
  shows "map snd pairs = map (\<lambda>r. fst (snd (handle_request ext rts r))) requests"
proof -
  from assms obtain responses where
    g: "gather sched (map fst (map (handle_request ext rts) requests)) = Some (Inr responses)"
    and p: "pairs = zip responses (map (\<lambda>x. fst (snd x)) (map (handle_request ext rts) requests))"
    by (auto simp: dispatch_def handle_requests_def Let_def split: option.splits sum.splits)
  from gather_length [OF g] have "length responses = length requests" by simp
  with p show ?thesis by (simp add: comp_def)
qed

lemma batch_event_source:
  assumes p: "parse_request ext event ctx = Inr (Batch rs)"
    and e: "event_source_of event = Inr (Some (PStr src))"
    and s: "src = ''aws:sns'' \<or> src = ''aws:mq''"
    and x: "x \<in> set rs"
  shows "map_of (req_event x) ''eventSource'' = Some (PStr src)"
proof -
  from parse_request_Batch [OF p e] obtain suffix parser gen where
    g: "source_suffix (PStr src) = Inr suffix" "getattr_parse_event suffix = Inr parser"
      "parser ext event = Inr gen" "comprehension ctx gen = Inr rs"
    by blast
  from comprehension_set [OF g(4) x] obtain re where
    re: "Inr re \<in> set gen" "record_request ctx re = Inr x" by blast
  from record_request_fields [OF re(2)] obtain d where
    d: "re = PDict d" "map_of (req_event x) ''eventSource'' = map_of d ''eventSource''" by blast
  from s show ?thesis
  proof
    assume a: "src = ''aws:sns''"
    with g have "parse_event_sns ext event = Inr gen"
      by (auto simp: getattr_parse_event_cases)
    with re(1) obtain rcd where "parse_record_sns ext rcd = Inr re"
      by (auto simp: parse_event_sns_def and_then_Inr)
    from parse_record_sns_fields [OF this] d a show ?thesis
      by (auto simp: update_conv')
  next
    assume a: "src = ''aws:mq''"
    with g have "parse_event_mq ext event = Inr gen"
      by (auto simp: getattr_parse_event_cases)
    with re(1) obtain rcd where "parse_record_mq ext rcd = Inr re"
      by (auto simp: parse_event_mq_def and_then_Inr)
    from parse_record_mq_fields [OF this] d a show ?thesis
      by (auto simp: update_conv')
  qed
qed

lemma serialize_responses_no_ack:
  assumes "resp_req \<noteq> []"
    and "getitem (PDict (req_event (snd (hd resp_req)))) ''eventSource'' = Inr (PStr src)"
    and "src = ''aws:sns'' \<or> src = ''aws:mq''"
  shows "serialize_responses resp_req = Inr PNone"
  using assms by (cases resp_req) (auto simp: serialize_responses_def)

text \<open>
  C9. \<^verbatim>\<open>serialize_responses\<close> of a non-empty sequence of pairs whose first request comes
  from a topic (\<^verbatim>\<open>aws:sns\<close>) or a broker (\<^verbatim>\<open>aws:mq\<close>) returns \<^verbatim>\<open>None\<close>, whatever the
  status codes. So an invocation on a topic or broker payload that returns at all returns
  \<^verbatim>\<open>None\<close>.
\<close>

theorem no_ack_for_topic_and_broker:
  "(resp_req \<noteq> [] \<and>
    getitem (PDict (req_event (snd (hd resp_req)))) ''eventSource'' = Inr (PStr src) \<and>
    (src = ''aws:sns'' \<or> src = ''aws:mq'')
      \<longrightarrow> serialize_responses resp_req = Inr PNone) \<and>
   (map_of event ''requestContext'' = None \<and>
    event_source_of event = Inr (Some (PStr src)) \<and>
    (src = ''aws:sns'' \<or> src = ''aws:mq'') \<and>
    acall ext rts sched event ctx = Some (Inr v)
      \<longrightarrow> v = PNone)"
proof -
  have 1: "resp_req \<noteq> [] \<and>
    getitem (PDict (req_event (snd (hd resp_req)))) ''eventSource'' = Inr (PStr src) \<and>
    (src = ''aws:sns'' \<or> src = ''aws:mq'')
      \<longrightarrow> serialize_responses resp_req = Inr PNone"
    using serialize_responses_no_ack [of resp_req src] by blast
  have 2: "v = PNone"
    if c: "map_of event ''requestContext'' = None"
      and e: "event_source_of event = Inr (Some (PStr src))"
      and s: "src = ''aws:sns'' \<or> src = ''aws:mq''"
      and a: "acall ext rts sched event ctx = Some (Inr v)"
  proof -
    from a c obtain rs pairs where
      p: "parse_request ext event ctx = Inr (Batch rs)"
      and d: "dispatch ext rts sched rs = Some (Inr pairs)"
      and v: "serialize_responses pairs = Inr v"
      by (auto simp: acall_def parse_request_def and_then_Inr
          split: sum.splits parsed.splits option.splits prod.splits if_splits)
    show ?thesis
    proof (cases pairs)
      case Nil
      with v show ?thesis by (simp add: serialize_responses_def)
    next
      case (Cons pr rest)
      from dispatch_Inr [OF d] Cons obtain x xs where
        rs: "rs = x # xs" and pr: "snd pr = fst (snd (handle_request ext rts x))"
        by (cases rs) auto
      obtain y r' ev' where h: "handle_request ext rts x = (y, r', ev')"
        by (cases "handle_request ext rts x")
      from batch_event_source [OF p e s, of x] rs have
        "map_of (req_event x) ''eventSource'' = Some (PStr src)" by simp
      with handle_request_event(1) [OF h] pr h Cons have
        "getitem (PDict (req_event (snd (hd pairs)))) ''eventSource'' = Inr (PStr src)"
        by simp
      from serialize_responses_no_ack [OF _ this s] Cons v show ?thesis by simp
    qed
  qed
  from 1 2 show ?thesis by blast
qed

text \<open>
  A topic batch and a broker batch whose item is answered with status 400: no payload.
\<close>

theorem no_ack_for_topic_and_broker_witness:
  "event_source_of (fixture_sns_event ''req400'') = Inr (Some (PStr ''aws:sns'')) \<and>
   acall fixture_lib fixture_routes [0] (fixture_sns_event ''req400'') PNone = Some (Inr PNone) \<and>
   getitem (PDict (req_event (fixture_request ''aws:mq'' ''1'' False))) ''eventSource'' =
     Inr (PStr ''aws:mq'') \<and>
   serialize_responses [(fixture_response PNone 400, fixture_request ''aws:mq'' ''1'' False)] =
     Inr PNone"
proof -
  have c: "map_of (fixture_sns_event ''req400'') ''requestContext'' = None"
    by code_simp
  have e: "event_source_of (fixture_sns_event ''req400'') = Inr (Some (PStr ''aws:sns''))"
    by code_simp
  let ?v = "case acall fixture_lib fixture_routes [0] (fixture_sns_event ''req400'') PNone of
              Some (Inr w) \<Rightarrow> w | _ \<Rightarrow> PBool False"
  have a: "acall fixture_lib fixture_routes [0] (fixture_sns_event ''req400'') PNone =
      Some (Inr ?v)"
    by code_simp
  from no_ack_for_topic_and_broker
    [of _ "''aws:sns''" "fixture_sns_event ''req400''" fixture_lib fixture_routes "[0]" PNone ?v]
    c e a
  have "?v = PNone" by blast
  with a have 1: "acall fixture_lib fixture_routes [0] (fixture_sns_event ''req400'') PNone =
      Some (Inr PNone)" by simp
  have g: "getitem (PDict (req_event (fixture_request ''aws:mq'' ''1'' False))) ''eventSource'' =
     Inr (PStr ''aws:mq'')"
    by (simp add: fixture_request_def)
  from no_ack_for_topic_and_broker
    [of "[(fixture_response PNone 400, fixture_request ''aws:mq'' ''1'' False)]" "''aws:mq''"] g
  have 2: "serialize_responses [(fixture_response PNone 400, fixture_request ''aws:mq'' ''1'' False)] =
     Inr PNone"
    by simp
  from e 1 g 2 show ?thesis by blast
qed

section \<open>Unhandled faults\<close>

text \<open>
  C3. Let the \<^verbatim>\<open>try\<close> block of \<^verbatim>\<open>_handle_request\<close> raise \<open>e\<close>, an \<^verbatim>\<open>Exception\<close> that is
  neither an \<^verbatim>\<open>HTTPException\<close> nor a \<^verbatim>\<open>ValidationError\<close>, and let the classifier of the
  log event answer \<open>(status, message)\<close>. Then the error response is built from that
  status and message, the log event holds the status of the response, and
  \<^verbatim>\<open>_handle_request\<close> raises \<open>e\<close> again when \<^verbatim>\<open>raises_exceptions\<close> is true and returns the
  error response when it is false. A direct invocation whose request raises so ends with
  that exception.
\<close>

theorem unhandled_fault:
  assumes "route_request ext rts request
             (create_event (req_method request) (req_path request)
                (dict_get (req_headers request) ''x-request-id'' PNone)
                (dict_get (req_headers request) ''user-agent'' PNone)) = (Inl e, request', ev)"
    and "is_Exception e"
    and "\<forall>s d h x. e \<noteq> HTTPException s d h x"
    and "\<forall>errors. e \<noteq> ValidationError errors"
    and "status_code_from_exception ext e ev = ((status, message), ev1)"
  shows "handle_request ext rts request =
           (if truthy (req_raises_exceptions request) then Inl e
            else Inr (fst (JSONResponse message status ev1)),
            request', snd (JSONResponse message status ev1)) \<and>
         resp_content (fst (JSONResponse message status ev1)) = message \<and>
         resp_status_code (fst (JSONResponse message status ev1)) =
           (if message = PNone \<and> status = 200 then 204 else status) \<and>
         ev_status_code (snd (JSONResponse message status ev1)) =
           Some (resp_status_code (fst (JSONResponse message status ev1))) \<and>
         (truthy (req_raises_exceptions request) \<and>
          parse_request ext event ctx = Inr (Single request)
            \<longrightarrow> acall ext rts sched event ctx = Some (Inl e))"
proof -
  have flag: "req_raises_exceptions request' = req_raises_exceptions request"
    by (subst route_request_same [OF assms(1)]) simp
  have h: "handle_request ext rts request =
           (if truthy (req_raises_exceptions request) then Inl e
            else Inr (fst (JSONResponse message status ev1)),
            request', snd (JSONResponse message status ev1))"
    using assms flag
    by (cases e) (simp_all add: handle_request_def Let_def split: prod.splits)
  have r: "resp_content (fst (JSONResponse message status ev1)) = message"
    "resp_status_code (fst (JSONResponse message status ev1)) =
           (if message = PNone \<and> status = 200 then 204 else status)"
    "ev_status_code (snd (JSONResponse message status ev1)) =
           Some (resp_status_code (fst (JSONResponse message status ev1)))"
    by (simp_all add: JSONResponse_eq)
  have a: "truthy (req_raises_exceptions request) \<and>
          parse_request ext event ctx = Inr (Single request)
            \<longrightarrow> acall ext rts sched event ctx = Some (Inl e)"
    by (simp add: acall_def h)
  from h r a show ?thesis by blast
qed

text \<open>
  The route \<^verbatim>\<open>/raise_500\<close> of the tests, whose function raises a \<^verbatim>\<open>ValueError\<close>: invoked
  directly, and as an item of a queue batch.
\<close>

theorem unhandled_fault_witness:
  "fst (handle_request fixture_lib fixture_routes (fixture_direct ''/raise_500'' ''GET'' PNone)) =
     Inl (ValueError ''Invalid value.'') \<and>
   ev_status_code (snd (snd (handle_request fixture_lib fixture_routes
                               (fixture_direct ''/raise_500'' ''GET'' PNone)))) = Some 500 \<and>
   acall fixture_lib fixture_routes [] (fixture_event ''/raise_500'' ''GET'' PNone) PNone =
     Some (Inl (ValueError ''Invalid value.'')) \<and>
   map_sum id resp_status_code
     (fst (handle_request fixture_lib fixture_routes
             ((fixture_direct ''/raise_500'' ''GET'' PNone)\<lparr>req_raises_exceptions := PBool False\<rparr>))) =
     Inr 500"
proof -
  let ?e = "ValueError ''Invalid value.''"
  let ?r = "fixture_direct ''/raise_500'' ''GET'' PNone"
  let ?q = "?r\<lparr>req_raises_exceptions := PBool False\<rparr>"
  let ?ev0 = "create_event (PStr ''GET'') (PStr ''/raise_500'') (PStr ''0a1b2c3d'') PNone"
  let ?ev = "?ev0\<lparr>ev_status_code := Some 204\<rparr>"
  let ?ev1 = "?ev\<lparr>ev_error_detail := PStr ''Traceback''\<rparr>"
  have j: "\<And>x. Request_json fixture_lib (?r\<lparr>req_raises_exceptions := x\<rparr>) =
      (Inr PNone, ?r\<lparr>req_raises_exceptions := x, req_body := Some PNone, req_json := Some PNone\<rparr>)"
    by (simp add: Request_json_def Request_body_def aws_Request_body_def fixture_direct_def
        fixture_event_def dict_get_def)
  have l: "\<And>x. lookup_route fixture_routes (?r\<lparr>req_raises_exceptions := x\<rparr>) =
      Inr (registered_route (''/raise_500'', ''GET'', None, fixture_get500, []))"
    by (simp add: lookup_route_def fixture_routes_eq fixture_direct_def)
  have rr: "\<And>x. route_request fixture_lib fixture_routes (?r\<lparr>req_raises_exceptions := x\<rparr>)
      (create_event (req_method (?r\<lparr>req_raises_exceptions := x\<rparr>))
         (req_path (?r\<lparr>req_raises_exceptions := x\<rparr>))
         (dict_get (req_headers (?r\<lparr>req_raises_exceptions := x\<rparr>)) ''x-request-id'' PNone)
         (dict_get (req_headers (?r\<lparr>req_raises_exceptions := x\<rparr>)) ''user-agent'' PNone)) =
      (Inl ?e, ?r\<lparr>req_raises_exceptions := x, req_body := Some PNone, req_json := Some PNone\<rparr>, ?ev)"
    by (simp add: route_request_def prepare_request_def l j call_route_function_def
        registered_route_def fixture_get500_def JSONResponse_eq Let_def)
      (simp add: fixture_direct_def dict_get_def create_event_def)
  have tr: "?r\<lparr>req_raises_exceptions := PBool True\<rparr> = ?r"
    by (simp add: fixture_direct_def)
  have c: "status_code_from_exception fixture_lib ?e ?ev = ((500, PNone), ?ev1)"
    by (simp add: fixture_lib_def fixture_classifier_def)
  have p: "parse_request fixture_lib (fixture_event ''/raise_500'' ''GET'' PNone) PNone =
      Inr (Single ?r)"
    by (rule parse_fixture_event)
  have t: "truthy (req_raises_exceptions ?r)" "\<not> truthy (req_raises_exceptions ?q)"
    by (simp_all add: fixture_direct_def)
  note A = unhandled_fault [OF rr [of "PBool True", unfolded tr] _ _ _ c,
      of "fixture_event ''/raise_500'' ''GET'' PNone" PNone "[]"]
  note B = unhandled_fault [OF rr [of "PBool False"] _ _ _ c]
  have 1: "fst (handle_request fixture_lib fixture_routes ?r) = Inl ?e"
    and 2: "ev_status_code (snd (snd (handle_request fixture_lib fixture_routes ?r))) = Some 500"
    and 3: "acall fixture_lib fixture_routes [] (fixture_event ''/raise_500'' ''GET'' PNone) PNone =
     Some (Inl ?e)"
    using A t(1) p by (simp_all add: JSONResponse_eq)
  have 4: "map_sum id resp_status_code (fst (handle_request fixture_lib fixture_routes ?q)) = Inr 500"
    using B t(2) by (simp add: JSONResponse_eq)
  from 1 2 3 4 show ?thesis by blast
qed

section \<open>Route lookup\<close>

lemma api_route_form:
  assumes "api_route p m sc f ps rts = Inr rts'"
  shows "route_at rts p m = None"
    and "rts' = AList.update p
                  (AList.update m (registered_route (p, m, sc, f, ps))
                     (case map_of rts p of None \<Rightarrow> [] | Some pr \<Rightarrow> pr))
                  rts"
  using assms
  by (auto simp: api_route_def route_at_def registered_route_def Let_def split: option.splits)

lemma api_route_Inr:
  assumes "api_route p m sc f ps rts = Inr rts'"
  shows "route_at rts p m = None"
    and "map_of rts' p' = None \<longleftrightarrow> map_of rts p' = None \<and> p' \<noteq> p"
    and "route_at rts' p' m' =
           (if p' = p \<and> m' = m then Some (registered_route (p, m, sc, f, ps))
            else route_at rts p' m')"
proof -
  show "route_at rts p m = None" by (rule api_route_form(1) [OF assms])
  show "map_of rts' p' = None \<longleftrightarrow> map_of rts p' = None \<and> p' \<noteq> p"
    unfolding api_route_form(2) [OF assms] by (simp add: update_conv')
  show "route_at rts' p' m' =
           (if p' = p \<and> m' = m then Some (registered_route (p, m, sc, f, ps))
            else route_at rts p' m')"
    unfolding api_route_form(2) [OF assms]
    by (simp add: route_at_def update_conv' split: option.splits)
qed

lemma register_dom:
  assumes "register regs rts = Inr rts'"
  shows "map_of rts' p = None \<longleftrightarrow> map_of rts p = None \<and> (\<forall>reg \<in> set regs. fst reg \<noteq> p)"
  using assms
proof (induction regs rts arbitrary: rts' rule: register.induct)
  case (1 rts)
  then show ?case by simp
next
  case (2 pa me sc fn ps regs rts)
  from "2.prems" obtain rts1 where
    a: "api_route pa me sc fn ps rts = Inr rts1"
    and b: "register regs rts1 = Inr rts'"
    by (auto simp: and_then_Inr)
  from "2.IH" [OF b] api_route_Inr(2) [OF a, of p] show ?case by auto
qed

lemma register_keeps:
  assumes "register regs rts = Inr rts'" and "route_at rts p m = Some rt"
  shows "route_at rts' p m = Some rt"
  using assms
proof (induction regs rts arbitrary: rts' rule: register.induct)
  case (1 rts)
  then show ?case by simp
next
  case (2 pa me sc fn ps regs rts)
  from "2.prems" obtain rts1 where
    a: "api_route pa me sc fn ps rts = Inr rts1"
    and b: "register regs rts1 = Inr rts'"
    by (auto simp: and_then_Inr)
  from api_route_Inr(1) [OF a] "2.prems"(2) have "\<not> (p = pa \<and> m = me)" by auto
  with api_route_Inr(3) [OF a, of p m] "2.prems"(2) have "route_at rts1 p m = Some rt" by simp
  from "2.IH" [OF b this] show ?case .
qed

lemma register_finds:
  assumes "register regs rts = Inr rts'" and "reg \<in> set regs"
  shows "route_at rts' (fst reg) (fst (snd reg)) = Some (registered_route reg)"
  using assms
proof (induction regs rts arbitrary: rts' rule: register.induct)
  case (1 rts)
  then show ?case by simp
next
  case (2 pa me sc fn ps regs rts)
  from "2.prems" obtain rts1 where
    a: "api_route pa me sc fn ps rts = Inr rts1"
    and b: "register regs rts1 = Inr rts'"
    by (auto simp: and_then_Inr)
  show ?case
  proof (cases "reg = (pa, me, sc, fn, ps)")
    case True
    with api_route_Inr(3) [OF a, of pa me] have
      "route_at rts1 (fst reg) (fst (snd reg)) = Some (registered_route reg)" by simp
    from register_keeps [OF b this] show ?thesis .
  next
    case False
    with "2.prems"(2) have "reg \<in> set regs" by simp
    from "2.IH" [OF b this] show ?thesis .
  qed
qed

lemma register_only:
  assumes "register regs rts = Inr rts'" and "route_at rts' p m = Some rt"
  shows "route_at rts p m = Some rt \<or> (\<exists>reg \<in> set regs. fst reg = p \<and> fst (snd reg) = m)"
  using assms
proof (induction regs rts arbitrary: rts' rule: register.induct)
  case (1 rts)
  then show ?case by simp
next
  case (2 pa me sc fn ps regs rts)
  from "2.prems" obtain rts1 where
    a: "api_route pa me sc fn ps rts = Inr rts1"
    and b: "register regs rts1 = Inr rts'"
    by (auto simp: and_then_Inr)
  from "2.IH" [OF b "2.prems"(2)] api_route_Inr(3) [OF a, of p m] show ?case
    by (auto split: if_splits)
qed

lemma lookup_route_eq:
  assumes "req_path request = PStr path" and "req_method request = PStr method"
  shows "lookup_route rts request =
           (case map_of rts path of
              None \<Rightarrow> Inl (HTTPException 404 PNone PNone PNone)
            | Some path_routes \<Rightarrow>
                (case map_of path_routes method of
                   None \<Rightarrow> Inl (HTTPException 405 PNone PNone PNone)
                 | Some route \<Rightarrow> Inr route))"
  using assms by (simp add: lookup_route_def split: option.splits)

lemma handle_request_lookup_error:
  assumes "lookup_route rts request = Inl (HTTPException status PNone PNone PNone)"
    and "status \<noteq> 200"
  shows "map_sum id resp_status_code (fst (handle_request ext rts request)) = Inr status"
  using assms
  by (simp add: handle_request_def route_request_def prepare_request_def JSONResponse_eq Let_def)

text \<open>
  C5. In the table that a program's registrations build, and for a request with a path
  and a method: when no registration has the path the lookup raises the error of status
  404, and the request is answered 404; when a registration has the path but none has the
  path with the method, it raises the error of status 405, and the request is answered
  405; and when a registration has the path and the method, the lookup returns the route
  of that registration.
\<close>

theorem route_lookup:
  assumes "register regs [] = Inr rts"
    and "req_path request = PStr path" and "req_method request = PStr method"
  shows "((\<forall>reg \<in> set regs. fst reg \<noteq> path) \<longrightarrow>
            lookup_route rts request = Inl (HTTPException 404 PNone PNone PNone) \<and>
            map_sum id resp_status_code (fst (handle_request ext rts request)) = Inr 404) \<and>
         ((\<exists>reg \<in> set regs. fst reg = path) \<and>
          (\<forall>reg \<in> set regs. fst reg = path \<longrightarrow> fst (snd reg) \<noteq> method) \<longrightarrow>
            lookup_route rts request = Inl (HTTPException 405 PNone PNone PNone) \<and>
            map_sum id resp_status_code (fst (handle_request ext rts request)) = Inr 405) \<and>
         (\<forall>reg \<in> set regs. fst reg = path \<and> fst (snd reg) = method \<longrightarrow>
            lookup_route rts request = Inr (registered_route reg))"
proof -
  note eq = lookup_route_eq [OF assms(2,3), of rts]
  have 1: "lookup_route rts request = Inl (HTTPException 404 PNone PNone PNone) \<and>
            map_sum id resp_status_code (fst (handle_request ext rts request)) = Inr 404"
    if "\<forall>reg \<in> set regs. fst reg \<noteq> path"
  proof -
    from register_dom [OF assms(1), of path] that have "map_of rts path = None" by simp
    then have "lookup_route rts request = Inl (HTTPException 404 PNone PNone PNone)"
      unfolding eq by simp
    with handle_request_lookup_error [OF this, of ext] show ?thesis by simp
  qed
  have 2: "lookup_route rts request = Inl (HTTPException 405 PNone PNone PNone) \<and>
            map_sum id resp_status_code (fst (handle_request ext rts request)) = Inr 405"
    if a: "\<exists>reg \<in> set regs. fst reg = path"
      and b: "\<forall>reg \<in> set regs. fst reg = path \<longrightarrow> fst (snd reg) \<noteq> method"
  proof -
    from register_dom [OF assms(1), of path] a obtain pr where pr: "map_of rts path = Some pr"
      by auto
    have "map_of pr method = None"
    proof (rule ccontr)
      assume "map_of pr method \<noteq> None"
      then obtain rt where "route_at rts path method = Some rt"
        using pr by (auto simp: route_at_def)
      from register_only [OF assms(1) this] b show False
        by (auto simp: route_at_def)
    qed
    with pr have "lookup_route rts request = Inl (HTTPException 405 PNone PNone PNone)"
      unfolding eq by simp
    with handle_request_lookup_error [OF this, of ext] show ?thesis by simp
  qed
  have 3: "lookup_route rts request = Inr (registered_route reg)"
    if "reg \<in> set regs" and "fst reg = path \<and> fst (snd reg) = method" for reg
  proof -
    from register_finds [OF assms(1) that(1)] that(2)
    have "route_at rts path method = Some (registered_route reg)" by simp
    then show ?thesis unfolding eq by (auto simp: route_at_def split: option.splits)
  qed
  from 1 2 3 show ?thesis by blast
qed

text \<open>
  The routes of the tests: \<^verbatim>\<open>/\<close> has \<^verbatim>\<open>GET\<close> and \<^verbatim>\<open>POST\<close>, \<^verbatim>\<open>/get_only\<close> has \<^verbatim>\<open>GET\<close> alone.
\<close>

theorem route_lookup_witness:
  "register fixture_registrations [] = Inr fixture_routes \<and>
   lookup_route fixture_routes (fixture_direct ''/not_exists'' ''GET'' PNone) =
     Inl (HTTPException 404 PNone PNone PNone) \<and>
   map_sum id resp_status_code
     (fst (handle_request fixture_lib fixture_routes (fixture_direct ''/not_exists'' ''GET'' PNone))) =
     Inr 404 \<and>
   lookup_route fixture_routes (fixture_direct ''/get_only'' ''PUT'' PNone) =
     Inl (HTTPException 405 PNone PNone PNone) \<and>
   map_sum id resp_status_code
     (fst (handle_request fixture_lib fixture_routes (fixture_direct ''/get_only'' ''PUT'' PNone))) =
     Inr 405 \<and>
   lookup_route fixture_routes (fixture_direct ''/'' ''POST'' PNone) =
     Inr (registered_route (''/'', ''POST'', None, fixture_get, []))"
proof -
  have r: "register fixture_registrations [] = Inr fixture_routes"
    by (simp add: fixture_routes_def fixture_registrations_def api_route_def)
  have f: "\<And>p m. req_path (fixture_direct p m PNone) = PStr p"
    "\<And>p m. req_method (fixture_direct p m PNone) = PStr m"
    by (simp_all add: fixture_direct_def)
  note A = route_lookup [OF r f, of "''/not_exists''" "''GET''" fixture_lib]
  note B = route_lookup [OF r f, of "''/get_only''" "''PUT''" fixture_lib]
  note C = route_lookup [OF r f, of "''/''" "''POST''" fixture_lib]
  have 1: "lookup_route fixture_routes (fixture_direct ''/not_exists'' ''GET'' PNone) =
     Inl (HTTPException 404 PNone PNone PNone)"
    and 2: "map_sum id resp_status_code
     (fst (handle_request fixture_lib fixture_routes (fixture_direct ''/not_exists'' ''GET'' PNone))) =
     Inr 404"
    using A [THEN conjunct1] by (simp_all add: fixture_registrations_def)
  have 3: "lookup_route fixture_routes (fixture_direct ''/get_only'' ''PUT'' PNone) =
     Inl (HTTPException 405 PNone PNone PNone)"
    and 4: "map_sum id resp_status_code
     (fst (handle_request fixture_lib fixture_routes (fixture_direct ''/get_only'' ''PUT'' PNone))) =
     Inr 405"
    using B [THEN conjunct2, THEN conjunct1] by (simp_all add: fixture_registrations_def)
  have 5: "lookup_route fixture_routes (fixture_direct ''/'' ''POST'' PNone) =
     Inr (registered_route (''/'', ''POST'', None, fixture_get, []))"
    using C [THEN conjunct2, THEN conjunct2] by (simp add: fixture_registrations_def)
  from r 1 2 3 4 5 show ?thesis by blast
qed

section \<open>The pairs of a batch\<close>




lemma handle_request_absorbs:
  assumes "\<not> truthy (req_raises_exceptions request)"
    and "\<forall>name. fst (route_request ext rts request
             (create_event (req_method request) (req_path request)
                (dict_get (req_headers request) ''x-request-id'' PNone)
                (dict_get (req_headers request) ''user-agent'' PNone))) \<noteq> Inl (BaseFault name)"
  shows "\<exists>response. fst (handle_request ext rts request) = Inr response"
proof -
  let ?ev = "create_event (req_method request) (req_path request)
                (dict_get (req_headers request) ''x-request-id'' PNone)
                (dict_get (req_headers request) ''user-agent'' PNone)"
  obtain y r' ev where rr: "route_request ext rts request ?ev = (y, r', ev)"
    by (cases "route_request ext rts request ?ev")
  have flag: "req_raises_exceptions r' = req_raises_exceptions request"
    by (subst route_request_same [OF rr]) simp
  show ?thesis
  proof (cases y)
    case (Inr response)
    with rr show ?thesis by (simp add: handle_request_def)
  next
    case (Inl e)
    with rr assms flag show ?thesis
      by (cases e) (auto simp: handle_request_def Let_def split: prod.splits)
  qed
qed







end
